theory Spec2Isabelle
  imports Main "HOL-Library.Word"
begin

section \<open>Go values shared by both files\<close>

text \<open>
  A Go \<open>string\<close> is a sequence of bytes, so it is a \<open>char list\<close> here and \<open>len\<close>
  counts bytes. A \<open>rune\<close> is an \<open>int32\<close> code point, read signed. Go's \<open>int\<close> (cursor,
  row and column numbers, counts) is modelled by \<open>int\<close>: every value of that type below is
  bounded by the length of a string or of a slice held in memory, so the 64-bit
  wrap-around is never reached.
\<close>

type_synonym rune = "32 word"

definition len :: "'a list \<Rightarrow> int" where
  "len xs = int (length xs)"

text \<open>Run-time panics of the Go code that the model keeps as values.\<close>

datatype panic =
    SliceOutOfRange
  | IndexOutOfRange
  | InterfaceConversion
  | NilMapAssignment
  | UnmarshalError
  | NewRequestError
  | TransportError
  | ReadError

text \<open>
  The slice expression \<open>s[lo:hi]\<close> on a string: it panics unless
  \<open>0 \<le> lo \<le> hi \<le> len(s)\<close>.
\<close>

definition slice :: "string \<Rightarrow> int \<Rightarrow> int \<Rightarrow> panic + string" where
  "slice s lo hi =
     (if 0 \<le> lo \<and> lo \<le> hi \<and> hi \<le> len s
      then Inr (take (nat (hi - lo)) (drop (nat lo) s))
      else Inl SliceOutOfRange)"

text \<open>
  The conversion \<open>string(ch)\<close> of a rune: the UTF-8 encoding of the code point, and the
  encoding of U+FFFD for a value that is no valid code point (negative, above U+10FFFF, or
  a surrogate half).
\<close>

definition string_of_rune :: "rune \<Rightarrow> string" where
  "string_of_rune ch =
     (let r = sint ch in
      if r < 0 \<or> 0x10FFFF < r \<or> (0xD800 \<le> r \<and> r \<le> 0xDFFF)
        then [char_of (0xEF::int), char_of (0xBF::int), char_of (0xBD::int)]
      else if r \<le> 0x7F then [char_of r]
      else if r \<le> 0x7FF then [char_of (0xC0 + r div 64), char_of (0x80 + r mod 64)]
      else if r \<le> 0xFFFF
        then [char_of (0xE0 + r div 4096), char_of (0x80 + r div 64 mod 64),
              char_of (0x80 + r mod 64)]
      else [char_of (0xF0 + r div 262144), char_of (0x80 + r div 4096 mod 64),
            char_of (0x80 + r div 64 mod 64), char_of (0x80 + r mod 64)])"

section \<open>line\_editor.go\<close>

subsection \<open>The terminal and the ticker list\<close>

text \<open>
  The editor draws through its \<open>*Screen\<close> and through the package-level functions of
  termbox. Both are outside the file; what the editor does to them is recorded, in order,
  as a list of operations.
\<close>

datatype screen_op =
    DrawLine int int string
  | ClearLine int int
  | Draw "string list"
  | SetCursor int int
  | HideCursor
  | Flush

text \<open>
  Key codes of termbox-go (\<open>type Key uint16\<close>): the control keys are their ASCII codes,
  the arrow keys count down from \<open>0xFFFF\<close> (\<open>KeyArrowLeft = 0xFFFF - 20\<close>,
  \<open>KeyArrowRight = 0xFFFF - 21\<close>).
\<close>

type_synonym Key = "16 word"

definition KeyCtrlA :: Key where "KeyCtrlA = 0x01"
definition KeyCtrlB :: Key where "KeyCtrlB = 0x02"
definition KeyCtrlE :: Key where "KeyCtrlE = 0x05"
definition KeyCtrlF :: Key where "KeyCtrlF = 0x06"
definition KeyBackspace :: Key where "KeyBackspace = 0x08"
definition KeyEnter :: Key where "KeyEnter = 0x0D"
definition KeyEsc :: Key where "KeyEsc = 0x1B"
definition KeySpace :: Key where "KeySpace = 0x20"
definition KeyBackspace2 :: Key where "KeyBackspace2 = 0x7F"
definition KeyArrowLeft :: Key where "KeyArrowLeft = 0xFFEB"
definition KeyArrowRight :: Key where "KeyArrowRight = 0xFFEA"

text \<open>The two fields of \<open>termbox.Event\<close> that \<open>Handle\<close> reads.\<close>

record Event =
  Key :: Key
  Ch :: rune

text \<open>
  \<open>type LineEditor struct\<close>. The fields \<open>screen\<close> and \<open>quotes\<close> are pointers in Go;
  here \<open>screen\<close> holds the operations issued so far and \<open>quotes\<close> holds
  \<open>quotes.profile.Tickers\<close>, the only part of \<open>*Quotes\<close> the editor reads.
\<close>

record LineEditor =
  command :: rune
  prompt :: string
  cursor :: int
  input :: string
  screen :: "screen_op list"
  quotes :: "string list"

definition emit :: "screen_op \<Rightarrow> LineEditor \<Rightarrow> LineEditor" where
  "emit operation self = self\<lparr>screen := screen self @ [operation]\<rparr>"

text \<open>\<open>new(LineEditor)\<close>: the zero value, before \<open>Initialize\<close>.\<close>

definition new_LineEditor :: LineEditor where
  "new_LineEditor =
     \<lparr>command = 0, prompt = [], cursor = 0, input = [], screen = [], quotes = []\<rparr>"

definition Initialize :: "screen_op list \<Rightarrow> string list \<Rightarrow> LineEditor \<Rightarrow> LineEditor" where
  "Initialize scr qs self = self\<lparr>screen := scr, quotes := qs\<rparr>"

subsection \<open>Prompt\<close>

definition prompts :: "rune \<rightharpoonup> string" where
  "prompts = [0x2B \<mapsto> ''Add tickers: '', 0x2D \<mapsto> ''Remove tickers: '']"

definition Prompt :: "rune \<Rightarrow> LineEditor \<Rightarrow> LineEditor" where
  "Prompt cmd self =
     (case prompts cmd of
        Some p \<Rightarrow>
          (let self = self\<lparr>prompt := p\<rparr>;
               self = self\<lparr>command := cmd\<rparr>;
               self = emit (DrawLine 0 3 (''<white>'' @ prompt self @ ''</>'')) self;
               self = emit (SetCursor (len (prompt self)) 3) self
           in emit Flush self)
      | None \<Rightarrow> self)"

subsection \<open>Cursor movement\<close>

definition move_left :: "LineEditor \<Rightarrow> LineEditor" where
  "move_left self =
     (if cursor self > 0
      then (let self = self\<lparr>cursor := cursor self - 1\<rparr>
            in emit (SetCursor (len (prompt self) + cursor self) 3) self)
      else self)"

definition move_right :: "LineEditor \<Rightarrow> LineEditor" where
  "move_right self =
     (if cursor self < len (input self)
      then (let self = self\<lparr>cursor := cursor self + 1\<rparr>
            in emit (SetCursor (len (prompt self) + cursor self) 3) self)
      else self)"

definition jump_to_beginning :: "LineEditor \<Rightarrow> LineEditor" where
  "jump_to_beginning self =
     (let self = self\<lparr>cursor := 0\<rparr>
      in emit (SetCursor (len (prompt self) + cursor self) 3) self)"

definition jump_to_end :: "LineEditor \<Rightarrow> LineEditor" where
  "jump_to_end self =
     (let self = self\<lparr>cursor := len (input self)\<rparr>
      in emit (SetCursor (len (prompt self) + cursor self) 3) self)"

subsection \<open>Editing the buffer\<close>

definition delete_previous_character :: "LineEditor \<Rightarrow> panic + LineEditor" where
  "delete_previous_character self =
     (if cursor self > 0 then
        (case (if cursor self < len (input self)
               then (case slice (input self) 0 (cursor self - 1) of
                       Inl p \<Rightarrow> Inl p
                     | Inr front \<Rightarrow>
                         (case slice (input self) (cursor self) (len (input self)) of
                            Inl p \<Rightarrow> Inl p
                          | Inr back \<Rightarrow> Inr (front @ back)))
               else slice (input self) 0 (len (input self) - 1)) of
           Inl p \<Rightarrow> Inl p
         | Inr s \<Rightarrow>
             (let self = self\<lparr>input := s\<rparr>;
                  self = emit (DrawLine (len (prompt self)) 3 (input self @ '' '')) self
              in Inr (move_left self)))
      else Inr self)"

definition insert_character :: "rune \<Rightarrow> LineEditor \<Rightarrow> panic + LineEditor" where
  "insert_character ch self =
     (case (if cursor self < len (input self)
            then (case slice (input self) 0 (cursor self) of
                    Inl p \<Rightarrow> Inl p
                  | Inr front \<Rightarrow>
                      (case slice (input self) (cursor self) (len (input self)) of
                         Inl p \<Rightarrow> Inl p
                       | Inr back \<Rightarrow> Inr (front @ string_of_rune ch @ back)))
            else Inr (input self @ string_of_rune ch)) of
        Inl p \<Rightarrow> Inl p
      | Inr s \<Rightarrow>
          (let self = self\<lparr>input := s\<rparr>;
               self = emit (DrawLine (len (prompt self)) 3 (input self)) self
           in Inr (move_right self)))"

subsection \<open>tokenize\<close>

text \<open>
  The three library calls of \<open>tokenize\<close>, on ASCII text. A byte of \<open>0x80\<close> or above
  makes Go decode UTF-8 and consult the Unicode tables in \<open>ToUpper\<close> and
  \<open>TrimSpace\<close>; those tables are not modelled, and such a byte is left alone here.
  \<^item> \<open>strings.TrimSpace\<close> removes leading and trailing tab, line feed, vertical tab, form
    feed, carriage return and space.
  \<^item> \<open>strings.ToUpper\<close> subtracts \<open>'a' - 'A'\<close> from every byte in \<open>'a'..'z'\<close>.
  \<^item> In the pattern \<open>[,\s]+\<close> the class \<open>\s\<close> is tab, line feed, form feed, carriage
    return and space (no vertical tab), so a match is a maximal run of those bytes and
    commas.
\<close>

definition asciiSpace :: "char \<Rightarrow> bool" where
  "asciiSpace c = (c \<in> set [CHR 0x09, CHR 0x0A, CHR 0x0B, CHR 0x0C, CHR 0x0D, CHR 0x20])"

definition TrimSpace :: "string \<Rightarrow> string" where
  "TrimSpace s = rev (dropWhile asciiSpace (rev (dropWhile asciiSpace s)))"

definition upper_byte :: "char \<Rightarrow> char" where
  "upper_byte c =
     (if (0x61::int) \<le> of_char c \<and> of_char c \<le> (0x7A::int)
      then char_of (of_char c - (0x20::int)) else c)"

definition ToUpper :: "string \<Rightarrow> string" where
  "ToUpper s = map upper_byte s"

definition separator :: "char \<Rightarrow> bool" where
  "separator c = (c \<in> set [CHR '','', CHR 0x09, CHR 0x0A, CHR 0x0C, CHR 0x0D, CHR 0x20])"

text \<open>
  \<open>regexp.MustCompile(`[,\s]+`).Split(s, -1)\<close>: the substrings of \<open>s\<close> between
  the matches. The empty string gives one empty substring. Otherwise the text before each
  match is a substring (empty when the match starts the string), and the text after the
  last match is one too (empty when the match ends the string): Go appends it whenever
  the last match does not start at \<open>len(s)\<close>, which a non-empty match never does.
\<close>

function Split :: "string \<Rightarrow> string list" where
  "Split s =
     (let piece = takeWhile (\<lambda>c. \<not> separator c) s;
          rest = dropWhile (\<lambda>c. \<not> separator c) s
      in if rest = [] then [piece] else piece # Split (dropWhile separator rest))"
  by pat_completeness auto
termination
proof (relation "measure length")
  show "wf (measure length)" by simp
next
  fix s piece rest :: string
  assume r: "rest = dropWhile (\<lambda>c. \<not> separator c) s" and ne: "rest \<noteq> []"
  from r ne have "separator (hd rest)"
    using hd_dropWhile [of "\<lambda>c. \<not> separator c" s] by auto
  with ne have "length (dropWhile separator rest) < length rest"
    by (cases rest) (auto simp: le_imp_less_Suc length_dropWhile_le)
  moreover have "length rest \<le> length s"
    using r by (simp add: length_dropWhile_le)
  ultimately show "(dropWhile separator rest, s) \<in> measure length" by simp
qed

declare Split.simps [simp del]

definition tokenize :: "LineEditor \<Rightarrow> string list" where
  "tokenize self = (let inp = ToUpper (TrimSpace (input self)) in Split inp)"

subsection \<open>execute, done and Handle\<close>

text \<open>
  The row-clearing loop of \<open>execute\<close>:
  \<open>for i := before; i > after; i-- { self.screen.ClearLine(0, i + 4) }\<close>.
\<close>

function clear_rows :: "int \<Rightarrow> int \<Rightarrow> LineEditor \<Rightarrow> LineEditor" where
  "clear_rows i after self =
     (if i > after then clear_rows (i - 1) after (emit (ClearLine 0 (i + 4)) self) else self)"
  by pat_completeness auto
termination
  by (relation "measure (\<lambda>(i, after, self). nat (i - after))") auto

declare clear_rows.simps [simp del]

text \<open>
  \<open>Quotes.AddTickers\<close> and \<open>Quotes.RemoveTickers\<close> are defined in another file. They are
  parameters here: each takes the ticker list and the tokens and returns the count it
  reports together with the new ticker list (the \<open>error\<close> both return is discarded by
  \<open>execute\<close>).
\<close>

type_synonym quotes_op = "string list \<Rightarrow> string list \<Rightarrow> int \<times> string list"

definition execute :: "quotes_op \<Rightarrow> quotes_op \<Rightarrow> LineEditor \<Rightarrow> LineEditor" where
  "execute AddTickers RemoveTickers self =
     (if command self = 0x2B then
        (let tickers = tokenize self in
         if len tickers > 0 then
           (let (added, qs) = AddTickers (quotes self) tickers;
                self = self\<lparr>quotes := qs\<rparr>
            in if added > 0 then emit (Draw (quotes self)) self else self)
         else self)
      else if command self = 0x2D then
        (let tickers = tokenize self in
         if len tickers > 0 then
           (let before = len (quotes self);
                (removed, qs) = RemoveTickers (quotes self) tickers;
                self = self\<lparr>quotes := qs\<rparr>
            in if removed > 0 then
                 (let self = emit (Draw (quotes self)) self;
                      after = before - removed;
                      self = clear_rows before after self
                  in if after = 0 then emit (ClearLine 0 4) self else self)
               else self)
         else self)
      else self)"

definition done' :: "LineEditor \<Rightarrow> bool \<times> LineEditor" where
  "done' self =
     (let self = emit (ClearLine 0 3) self;
          self = emit HideCursor self
      in (True, self))"

text \<open>
  \<open>Handle\<close> returns whether the session has ended, or panics. The deferred
  \<open>termbox.Flush()\<close> runs last on every path.
\<close>

definition continue :: "panic + LineEditor \<Rightarrow> panic + bool \<times> LineEditor" where
  "continue r = (case r of Inl p \<Rightarrow> Inl p | Inr self \<Rightarrow> Inr (False, self))"

definition Handle ::
  "quotes_op \<Rightarrow> quotes_op \<Rightarrow> Event \<Rightarrow> LineEditor \<Rightarrow> panic + bool \<times> LineEditor" where
  "Handle AddTickers RemoveTickers ev self =
     (case (if Key ev = KeyEsc then Inr (done' self)
            else if Key ev = KeyEnter
              then Inr (done' (execute AddTickers RemoveTickers self))
            else if Key ev = KeyBackspace \<or> Key ev = KeyBackspace2
              then continue (delete_previous_character self)
            else if Key ev = KeyCtrlB \<or> Key ev = KeyArrowLeft
              then continue (Inr (move_left self))
            else if Key ev = KeyCtrlF \<or> Key ev = KeyArrowRight
              then continue (Inr (move_right self))
            else if Key ev = KeyCtrlA then continue (Inr (jump_to_beginning self))
            else if Key ev = KeyCtrlE then continue (Inr (jump_to_end self))
            else if Key ev = KeySpace then continue (insert_character 0x20 self)
            else if Ch ev \<noteq> 0 then continue (insert_character (Ch ev) self)
            else continue (Inr self)) of
        Inl p \<Rightarrow> Inl p
      | Inr (ended, self) \<Rightarrow> Inr (ended, emit Flush self))"

text \<open>
  A run of the event loop on one editor: each event goes to \<open>Handle\<close> in turn, and a
  panic ends the run.
\<close>

fun handle_all :: "quotes_op \<Rightarrow> quotes_op \<Rightarrow> Event list \<Rightarrow> LineEditor \<Rightarrow> panic + LineEditor" where
  "handle_all AddTickers RemoveTickers [] self = Inr self"
| "handle_all AddTickers RemoveTickers (ev # evs) self =
     (case Handle AddTickers RemoveTickers ev self of
        Inl p \<Rightarrow> Inl p
      | Inr (ended, self') \<Rightarrow> handle_all AddTickers RemoveTickers evs self')"

text \<open>The invariant of the session state: \<open>0 \<le> cursor \<le> len(input)\<close>.\<close>

definition cursor_in_bounds :: "LineEditor \<Rightarrow> bool" where
  "cursor_in_bounds self = (0 \<le> cursor self \<and> cursor self \<le> len (input self))"

subsection \<open>The ticker set of the specification\<close>

text \<open>
  Modelled from the spec: \<open>TickerSet.Add\<close> and \<open>TickerSet.Remove\<close> (the bodies of
  \<open>AddTickers\<close> and \<open>RemoveTickers\<close> are not in the files at hand). Each symbol is
  trimmed and uppercased; an empty symbol is ignored. \<open>Add\<close> skips a symbol already
  present and appends a new one; \<open>Remove\<close> deletes the matching entries and keeps the
  order of the rest. Both return how many entries changed.
\<close>

fun spec_Add :: quotes_op where
  "spec_Add ts [] = (0, ts)"
| "spec_Add ts (t # syms) =
     (let s = ToUpper (TrimSpace t) in
      if s = [] \<or> s \<in> set ts then spec_Add ts syms
      else (let (n, ts') = spec_Add (ts @ [s]) syms in (n + 1, ts')))"

fun spec_Remove :: quotes_op where
  "spec_Remove ts [] = (0, ts)"
| "spec_Remove ts (t # syms) =
     (let s = ToUpper (TrimSpace t) in
      if s = [] then spec_Remove ts syms
      else (let kept = filter (\<lambda>x. x \<noteq> s) ts;
                (n, ts') = spec_Remove kept syms
            in (n + (len ts - len kept), ts')))"

section \<open>The market file (src/unnamed/part\_000)\<close>

subsection \<open>Decoded JSON\<close>

text \<open>
  What \<open>encoding/json\<close> stores in an \<open>interface{}\<close>: \<open>nil\<close>, \<open>bool\<close>, \<open>float64\<close>,
  \<open>string\<close>, \<open>[]interface{}\<close> or \<open>map[string]interface{}\<close>. The numbers are of a type
  \<open>'n\<close> that stands for \<open>float64\<close>: the code only hands them to \<open>float2Str\<close>.
\<close>

datatype 'n jvalue =
    JNull
  | JBool bool
  | JNumber 'n
  | JString string
  | JArray "'n jvalue list"
  | JObject "(string \<times> 'n jvalue) list"

text \<open>
  One element of the result array (\<open>map[string]interface{}\<close>), and the variable \<open>d\<close> of
  \<open>extract\<close> (\<open>map[string]map[string][]map[string]interface{}\<close>). Reading a key that is
  missing, also from a nil map, gives the zero value of the element type: \<open>nil\<close> for a map,
  a slice or an interface.
\<close>

type_synonym 'n entry = "string \<rightharpoonup> 'n jvalue"

type_synonym 'n decoded = "string \<rightharpoonup> (string \<rightharpoonup> 'n entry list)"

definition result_array :: "'n decoded \<Rightarrow> 'n entry list" where
  "result_array d =
     (case d ''quoteResponse'' of
        None \<Rightarrow> []
      | Some quoteResponse \<Rightarrow> (case quoteResponse ''result'' of None \<Rightarrow> [] | Some r \<Rightarrow> r))"

subsection \<open>Market\<close>

text \<open>
  A field of type \<open>map[string]string\<close> is \<open>None\<close> while it is the nil map and
  \<open>Some m\<close> once a map has been made: writing a key into the nil map panics.
\<close>

type_synonym gomap = "(string \<rightharpoonup> string) option"

record Market =
  IsClosed :: bool
  Dow :: gomap
  Nasdaq :: gomap
  Sp500 :: gomap
  Btc :: gomap
  Tokyo :: gomap
  HongKong :: gomap
  London :: gomap
  Frankfurt :: gomap
  Yield :: gomap
  Silver :: gomap
  Yen :: gomap
  Rub :: gomap
  Gbp :: gomap
  Euro :: gomap
  Gold :: gomap
  errors :: string
  url :: string
  cookies :: string
  crumb :: string

definition marketURL_prefix :: string where
  "marketURL_prefix = ''https://query1.finance.yahoo.com/v7/finance/quote?crumb=''"

definition marketURLQueryParts :: string where
  "marketURLQueryParts =
     ''&range=1d&interval=5m&indicators=close&includeTimestamps=false'' @
     ''&includePrePost=false&corsDomain=finance.yahoo.com&.tsrc=finance''"

text \<open>
  \<open>NewMarket\<close>, given what \<open>fetchCookies\<close> and \<open>fetchCrumb\<close> returned (both are defined
  in another file). \<open>Rub\<close> and \<open>Gbp\<close> are not made and stay nil.
\<close>

definition NewMarket :: "string \<Rightarrow> string \<Rightarrow> Market" where
  "NewMarket fetched_cookies fetched_crumb =
     \<lparr>IsClosed = False,
      Dow = Some Map.empty, Nasdaq = Some Map.empty, Sp500 = Some Map.empty,
      Btc = Some Map.empty, Tokyo = Some Map.empty, HongKong = Some Map.empty,
      London = Some Map.empty, Frankfurt = Some Map.empty, Yield = Some Map.empty,
      Silver = Some Map.empty, Yen = Some Map.empty, Rub = None, Gbp = None,
      Euro = Some Map.empty, Gold = Some Map.empty,
      errors = [],
      url = marketURL_prefix @ fetched_crumb @ ''&symbols='' @
        ''^DJI,^IXIC,^GSPC,BTC-USD,^N225,^HSI,^FTSE,^GDAXI,JPY=X,RUB=X,GBP=X,EUR=X,^TNX,SI=F,GC=F''
        @ marketURLQueryParts,
      cookies = fetched_cookies,
      crumb = fetched_crumb\<rparr>"

definition Ok :: "Market \<Rightarrow> bool \<times> string" where
  "Ok market = (errors market = [], errors market)"

definition isMarketOpen :: "Market \<Rightarrow> 'b \<Rightarrow> 'b" where
  "isMarketOpen market body = body"

subsection \<open>assign\<close>

text \<open>
  \<open>results[position][key].(float64)\<close>: the index panics out of range, the type assertion
  panics on a missing key (a nil interface) and on any value that is not a number.
\<close>

definition float_at :: "'n entry list \<Rightarrow> int \<Rightarrow> string \<Rightarrow> panic + 'n" where
  "float_at results position key =
     (if 0 \<le> position \<and> position < len results
      then (case (results ! nat position) key of
              Some (JNumber x) \<Rightarrow> Inr x
            | _ \<Rightarrow> Inl InterfaceConversion)
      else Inl IndexOutOfRange)"

text \<open>\<open>float2Str\<close> is defined in another file and is a parameter.\<close>

definition assign ::
  "('n \<Rightarrow> string) \<Rightarrow> 'n entry list \<Rightarrow> int \<Rightarrow> bool \<Rightarrow> panic + (string \<rightharpoonup> string)" where
  "assign float2Str results position changeAsPercent =
     (let out = Map.empty in
      case float_at results position ''regularMarketChange'' of
        Inl p \<Rightarrow> Inl p
      | Inr change \<Rightarrow>
          (let out = out(''change'' \<mapsto> float2Str change) in
           case float_at results position ''regularMarketPrice'' of
             Inl p \<Rightarrow> Inl p
           | Inr price \<Rightarrow>
               (let out = out(''latest'' \<mapsto> float2Str price) in
                case float_at results position ''regularMarketChangePercent'' of
                  Inl p \<Rightarrow> Inl p
                | Inr percent \<Rightarrow>
                    (if changeAsPercent
                     then Inr (out(''change'' \<mapsto> float2Str percent @ ''%''))
                     else Inr (out(''percent'' \<mapsto> float2Str percent @ ''%''))))))"

subsection \<open>extract\<close>

text \<open>
  The body of \<open>extract\<close> is a sequence of statements on \<open>*market\<close>. A statement either
  completes with the new state or panics; a panic leaves the statements after it
  unexecuted and the state as the statements before it wrote it.
\<close>

type_synonym statement = "Market \<Rightarrow> panic + Market"

fun run :: "statement list \<Rightarrow> Market \<Rightarrow> panic option \<times> Market" where
  "run [] market = (None, market)"
| "run (stmt # stmts) market =
     (case stmt market of
        Inl p \<Rightarrow> (Some p, market)
      | Inr market' \<Rightarrow> run stmts market')"

text \<open>\<open>market.F = assign(...)\<close>, for the field whose update function is \<open>F_update\<close>.\<close>

definition store ::
  "((gomap \<Rightarrow> gomap) \<Rightarrow> Market \<Rightarrow> Market) \<Rightarrow> panic + (string \<rightharpoonup> string) \<Rightarrow> statement" where
  "store field_update assigned market =
     (case assigned of
        Inl p \<Rightarrow> Inl p
      | Inr out \<Rightarrow> Inr (field_update (\<lambda>_. Some out) market))"

text \<open>\<open>market.Yield[`name`] = `10-year Yield`\<close>, a write into the map the field holds.\<close>

definition name_Yield :: statement where
  "name_Yield market =
     (case Yield market of
        None \<Rightarrow> Inl NilMapAssignment
      | Some y \<Rightarrow> Inr (market\<lparr>Yield := Some (y(''name'' \<mapsto> ''10-year Yield''))\<rparr>))"

text \<open>The statements of \<open>extract\<close> after \<open>results\<close> has been read, in their order.\<close>

definition extract_statements :: "('n \<Rightarrow> string) \<Rightarrow> 'n entry list \<Rightarrow> statement list" where
  "extract_statements float2Str results =
     [store Dow_update (assign float2Str results 0 False),
      store Nasdaq_update (assign float2Str results 1 False),
      store Sp500_update (assign float2Str results 2 False),
      store Btc_update (assign float2Str results 3 False),
      store Tokyo_update (assign float2Str results 4 False),
      store HongKong_update (assign float2Str results 5 False),
      store London_update (assign float2Str results 6 False),
      store Frankfurt_update (assign float2Str results 7 False),
      store Yen_update (assign float2Str results 8 False),
      store Rub_update (assign float2Str results 9 False),
      store Gbp_update (assign float2Str results 10 False),
      store Euro_update (assign float2Str results 11 False),
      name_Yield,
      store Yield_update (assign float2Str results 12 False),
      store Silver_update (assign float2Str results 13 False),
      store Gold_update (assign float2Str results 14 False)]"

text \<open>
  \<open>extract\<close> (named \<open>extract'\<close> here, \<open>extract\<close> being a command of Isabelle).
  \<open>json.Unmarshal(body, &d)\<close> is a parameter: \<open>None\<close> when it returns an error, the
  decoded \<open>d\<close> otherwise.
\<close>

definition extract' ::
  "('b \<Rightarrow> 'n decoded option) \<Rightarrow> ('n \<Rightarrow> string) \<Rightarrow> 'b \<Rightarrow> Market \<Rightarrow> panic option \<times> Market" where
  "extract' Unmarshal float2Str body market =
     (case Unmarshal body of
        None \<Rightarrow> (Some UnmarshalError, market)
      | Some d \<Rightarrow>
          (let results = result_array d
           in run (extract_statements float2Str results) market))"

subsection \<open>Fetch\<close>

text \<open>
  What the network part of \<open>Fetch\<close> came to: \<open>http.NewRequest\<close>, \<open>client.Do\<close> or
  \<open>ioutil.ReadAll\<close> returned an error, or the body was read.
\<close>

datatype 'b response =
    NewRequestFailed
  | DoFailed
  | ReadAllFailed
  | BodyRead 'b

text \<open>The statements of \<open>Fetch\<close>, before the deferred function runs.\<close>

definition Fetch_body ::
  "('b \<Rightarrow> 'n decoded option) \<Rightarrow> ('n \<Rightarrow> string) \<Rightarrow> 'b response \<Rightarrow> Market
     \<Rightarrow> panic option \<times> Market" where
  "Fetch_body Unmarshal float2Str response market =
     (case response of
        NewRequestFailed \<Rightarrow> (Some NewRequestError, market)
      | DoFailed \<Rightarrow> (Some TransportError, market)
      | ReadAllFailed \<Rightarrow> (Some ReadError, market)
      | BodyRead body \<Rightarrow>
          (let body = isMarketOpen market body
           in extract' Unmarshal float2Str body market))"

text \<open>
  \<open>Fetch\<close> with its deferred function: when \<open>recover()\<close> finds a panic,
  \<open>market.errors\<close> becomes the empty string. The market is returned either way.
\<close>

definition Fetch ::
  "('b \<Rightarrow> 'n decoded option) \<Rightarrow> ('n \<Rightarrow> string) \<Rightarrow> 'b response \<Rightarrow> Market \<Rightarrow> Market" where
  "Fetch Unmarshal float2Str response market =
     (case Fetch_body Unmarshal float2Str response market of
        (None, market') \<Rightarrow> market'
      | (Some err, market') \<Rightarrow> market'\<lparr>errors := []\<rparr>)"

text \<open>The indicator records in the order of the symbols of the request.\<close>

definition indicators :: "Market \<Rightarrow> gomap list" where
  "indicators market =
     [Dow market, Nasdaq market, Sp500 market, Btc market, Tokyo market, HongKong market,
      London market, Frankfurt market, Yen market, Rub market, Gbp market, Euro market,
      Yield market, Silver market, Gold market]"

text \<open>
  The shape of a response: an element of the result array that carries the three numbers,
  and the document \<open>{"quoteResponse": {"result": [...]}}\<close> around the array.
\<close>

definition quote :: "'n \<Rightarrow> 'n \<Rightarrow> 'n \<Rightarrow> 'n entry" where
  "quote price change percent =
     [''regularMarketPrice'' \<mapsto> JNumber price,
      ''regularMarketChange'' \<mapsto> JNumber change,
      ''regularMarketChangePercent'' \<mapsto> JNumber percent]"

definition response_document :: "'n entry list \<Rightarrow> 'n decoded" where
  "response_document entries = [''quoteResponse'' \<mapsto> [''result'' \<mapsto> entries]]"

text \<open>
  Sample responses: the result array holds the first \<open>n\<close> of sixteen quotes, whose
  prices, already in the form \<open>float2Str\<close> gives them, tell the positions apart.
\<close>

definition sample_prices :: "string list" where
  "sample_prices =
     [''1.00'', ''2.00'', ''3.00'', ''4.00'', ''5.00'', ''6.00'', ''7.00'', ''8.00'',
      ''9.00'', ''10.00'', ''11.00'', ''12.00'', ''13.00'', ''14.00'', ''15.00'', ''16.00'']"

definition sample_response :: "nat \<Rightarrow> string decoded" where
  "sample_response n =
     response_document (map (\<lambda>price. quote price ''0.50'' ''0.10'') (take n sample_prices))"

section \<open>Properties of the line editor\<close>

subsection \<open>Lengths, runes and the fields the drawing leaves alone\<close>

lemma string_of_rune_nonempty: "string_of_rune ch \<noteq> []"
  by (simp add: string_of_rune_def Let_def)

lemma emit_fields [simp]:
  "cursor (emit x self) = cursor self" "input (emit x self) = input self"
  "prompt (emit x self) = prompt self" "command (emit x self) = command self"
  "quotes (emit x self) = quotes self" "screen (emit x self) = screen self @ [x]"
  by (simp_all add: emit_def)

lemmas Key_defs = KeyCtrlA_def KeyCtrlB_def KeyCtrlE_def KeyCtrlF_def KeyBackspace_def
  KeyEnter_def KeyEsc_def KeySpace_def KeyBackspace2_def KeyArrowLeft_def KeyArrowRight_def

lemmas tokenize_eval = tokenize_def TrimSpace_def ToUpper_def asciiSpace_def upper_byte_def
  char_of_def separator_def Split.simps Let_def

lemmas editor_eval = Handle_def continue_def done'_def execute_def Prompt_def prompts_def
  Initialize_def new_LineEditor_def insert_character_def delete_previous_character_def
  move_left_def move_right_def jump_to_beginning_def jump_to_end_def slice_def len_def
  emit_def string_of_rune_def char_of_def Let_def Key_defs

subsection \<open>Inserting a character\<close>

lemma insert_character_result:
  assumes "cursor_in_bounds self"
  shows "insert_character ch self =
           Inr (self\<lparr>input := take (nat (cursor self)) (input self) @ string_of_rune ch
                                @ drop (nat (cursor self)) (input self),
                     cursor := cursor self + 1,
                     screen := screen self @
                       [DrawLine (len (prompt self)) 3
                          (take (nat (cursor self)) (input self) @ string_of_rune ch
                             @ drop (nat (cursor self)) (input self)),
                        SetCursor (len (prompt self) + (cursor self + 1)) 3]\<rparr>)"
proof -
  obtain n where "length (string_of_rune ch) = Suc n"
    using string_of_rune_nonempty [of ch] by (cases "string_of_rune ch") auto
  with assms show ?thesis
    by (auto simp: insert_character_def cursor_in_bounds_def slice_def move_right_def emit_def
        len_def Let_def)
qed

text \<open>
  Claim C7. With the cursor inside the buffer, inserting a character puts its bytes
  between the part of the buffer before the cursor and the part from the cursor on, at
  the end as well as in the middle, and then moves the cursor one to the right. On
  \<open>AAPL\<close> with the cursor at 2, inserting \<open>X\<close> gives \<open>AAXPL\<close> and the cursor 3.
\<close>

theorem insert_character_splices:
  assumes "cursor_in_bounds self"
  shows "\<exists>self'. insert_character ch self = Inr self'
           \<and> input self' = take (nat (cursor self)) (input self) @ string_of_rune ch
                              @ drop (nat (cursor self)) (input self)
           \<and> cursor self' = cursor self + 1"
  by (simp add: insert_character_result [OF assms])

theorem insert_character_splices_witness:
  "cursor_in_bounds (new_LineEditor\<lparr>input := ''AAPL'', cursor := 2\<rparr>)
   \<and> (\<exists>self'. insert_character 0x58 (new_LineEditor\<lparr>input := ''AAPL'', cursor := 2\<rparr>) = Inr self'
         \<and> input self' = ''AAXPL'' \<and> cursor self' = 3)"
  using insert_character_splices [of "new_LineEditor\<lparr>input := ''AAPL'', cursor := 2\<rparr>" "0x58"]
  by (simp add: cursor_in_bounds_def new_LineEditor_def len_def string_of_rune_def char_of_def)

subsection \<open>The cursor stays inside the buffer\<close>

lemma move_left_bounds: "cursor_in_bounds self \<Longrightarrow> cursor_in_bounds (move_left self)"
  by (simp add: move_left_def cursor_in_bounds_def Let_def)

lemma move_right_bounds: "cursor_in_bounds self \<Longrightarrow> cursor_in_bounds (move_right self)"
  by (simp add: move_right_def cursor_in_bounds_def Let_def)

lemma jump_to_beginning_bounds: "cursor_in_bounds (jump_to_beginning self)"
  by (simp add: jump_to_beginning_def cursor_in_bounds_def Let_def len_def)

lemma jump_to_end_bounds: "cursor_in_bounds (jump_to_end self)"
  by (simp add: jump_to_end_def cursor_in_bounds_def Let_def len_def)

lemma insert_character_bounds:
  assumes "cursor_in_bounds self"
  shows "\<exists>self'. insert_character ch self = Inr self' \<and> cursor_in_bounds self'"
proof -
  obtain n where "length (string_of_rune ch) = Suc n"
    using string_of_rune_nonempty [of ch] by (cases "string_of_rune ch") auto
  with assms show ?thesis
    unfolding insert_character_result [OF assms, of ch]
    by (auto simp: cursor_in_bounds_def len_def)
qed

lemma delete_previous_character_bounds:
  assumes "cursor_in_bounds self"
  shows "\<exists>self'. delete_previous_character self = Inr self' \<and> cursor_in_bounds self'"
  using assms
  by (auto simp: delete_previous_character_def cursor_in_bounds_def slice_def move_left_def
      emit_def len_def Let_def)

lemma clear_rows_fields:
  "cursor (clear_rows i a self) = cursor self \<and> input (clear_rows i a self) = input self
   \<and> prompt (clear_rows i a self) = prompt self \<and> command (clear_rows i a self) = command self
   \<and> quotes (clear_rows i a self) = quotes self"
proof (induction i a self rule: clear_rows.induct)
  case (1 i after self)
  show ?case
  proof (cases "i > after")
    case True
    with 1 show ?thesis by (subst (1 2 3 4 5) clear_rows.simps) simp
  next
    case False
    then show ?thesis by (subst (1 2 3 4 5) clear_rows.simps) simp
  qed
qed

lemma execute_buffer:
  "input (execute A R self) = input self \<and> cursor (execute A R self) = cursor self"
  by (simp add: execute_def Let_def clear_rows_fields split: prod.splits)

lemma done_bounds:
  assumes "cursor_in_bounds self"
  shows "\<exists>self'. done' self = (True, self') \<and> cursor_in_bounds self'"
  using assms by (simp add: done'_def Let_def cursor_in_bounds_def)

lemma Handle_step:
  assumes "cursor_in_bounds self"
  shows "\<exists>self'. Handle A R ev self = Inr (Key ev = KeyEsc \<or> Key ev = KeyEnter, self')
           \<and> cursor_in_bounds self'"
proof -
  have e: "cursor_in_bounds (execute A R self)"
    using assms execute_buffer [of A R self] by (simp add: cursor_in_bounds_def)
  have f: "cursor_in_bounds (emit Flush s) = cursor_in_bounds s" for s
    by (simp add: cursor_in_bounds_def)
  obtain s1 where s1: "insert_character 0x20 self = Inr s1" "cursor_in_bounds s1"
    using insert_character_bounds [OF assms] by blast
  obtain s2 where s2: "insert_character (Ch ev) self = Inr s2" "cursor_in_bounds s2"
    using insert_character_bounds [OF assms] by blast
  obtain s3 where s3: "delete_previous_character self = Inr s3" "cursor_in_bounds s3"
    using delete_previous_character_bounds [OF assms] by blast
  obtain s4 where s4: "done' self = (True, s4)" "cursor_in_bounds s4"
    using done_bounds [OF assms] by blast
  obtain s5 where s5: "done' (execute A R self) = (True, s5)" "cursor_in_bounds s5"
    using done_bounds [OF e] by blast
  show ?thesis
  proof (cases "Key ev = KeyEsc")
    case True
    then show ?thesis using s4 by (simp add: Handle_def f)
  next
    case not_esc: False
    show ?thesis
    proof (cases "Key ev = KeyEnter")
      case True
      with not_esc show ?thesis using s5 by (simp add: Handle_def f)
    next
      case not_enter: False
      with not_esc show ?thesis
        using assms s1 s2 s3 move_left_bounds [OF assms] move_right_bounds [OF assms]
          jump_to_beginning_bounds [of self] jump_to_end_bounds [of self]
        by (simp add: Handle_def continue_def f)
    qed
  qed
qed

lemma Handle_ended:
  "Handle A R ev self = Inr (r, self') \<Longrightarrow> r = (Key ev = KeyEsc \<or> Key ev = KeyEnter)"
  by (auto simp: Handle_def continue_def done'_def Let_def split: sum.splits if_splits)

lemma handle_all_bounds:
  "cursor_in_bounds self \<Longrightarrow>
   \<exists>self'. handle_all A R evs self = Inr self' \<and> cursor_in_bounds self'"
proof (induction evs arbitrary: self)
  case Nil
  then show ?case by simp
next
  case (Cons ev evs)
  from Handle_step [OF Cons.prems, of A R ev]
  obtain s where s: "Handle A R ev self = Inr (Key ev = KeyEsc \<or> Key ev = KeyEnter, s)"
    and b: "cursor_in_bounds s" by blast
  from Cons.IH [OF b] s show ?case by simp
qed

text \<open>
  Claim C6. From a state with \<open>0 \<le> cursor \<le> len(input)\<close>, any sequence of key
  events, whatever the keys and their order, is handled without a panic and ends in a
  state with \<open>0 \<le> cursor \<le> len(input)\<close>. So moving left at cursor 0 does not make
  the cursor negative and moving right at the end does not take it past the end.
\<close>

theorem cursor_bounds_preserved:
  assumes "cursor_in_bounds self"
  shows "\<exists>self'. handle_all AddTickers RemoveTickers evs self = Inr self' \<and> cursor_in_bounds self'"
  using assms by (rule handle_all_bounds)

theorem cursor_bounds_preserved_witness:
  "cursor_in_bounds (new_LineEditor\<lparr>input := ''AAPL'', cursor := 0\<rparr>)
   \<and> (\<exists>self'. handle_all spec_Add spec_Remove
          [\<lparr>Key = KeyArrowLeft, Ch = 0\<rparr>, \<lparr>Key = KeyCtrlB, Ch = 0\<rparr>, \<lparr>Key = KeyArrowLeft, Ch = 0\<rparr>]
          (new_LineEditor\<lparr>input := ''AAPL'', cursor := 0\<rparr>) = Inr self'
        \<and> cursor_in_bounds self')
   \<and> cursor_in_bounds (new_LineEditor\<lparr>input := ''AAPL'', cursor := 4\<rparr>)
   \<and> (\<exists>self'. handle_all spec_Add spec_Remove
          [\<lparr>Key = KeyArrowRight, Ch = 0\<rparr>, \<lparr>Key = KeyCtrlF, Ch = 0\<rparr>, \<lparr>Key = KeyArrowRight, Ch = 0\<rparr>]
          (new_LineEditor\<lparr>input := ''AAPL'', cursor := 4\<rparr>) = Inr self'
        \<and> cursor_in_bounds self')"
  using cursor_bounds_preserved [of "new_LineEditor\<lparr>input := ''AAPL'', cursor := 0\<rparr>"
      spec_Add spec_Remove
      "[\<lparr>Key = KeyArrowLeft, Ch = 0\<rparr>, \<lparr>Key = KeyCtrlB, Ch = 0\<rparr>, \<lparr>Key = KeyArrowLeft, Ch = 0\<rparr>]"]
    cursor_bounds_preserved [of "new_LineEditor\<lparr>input := ''AAPL'', cursor := 4\<rparr>"
      spec_Add spec_Remove
      "[\<lparr>Key = KeyArrowRight, Ch = 0\<rparr>, \<lparr>Key = KeyCtrlF, Ch = 0\<rparr>, \<lparr>Key = KeyArrowRight, Ch = 0\<rparr>]"]
  by (simp add: cursor_in_bounds_def new_LineEditor_def len_def)

text \<open>
  The two runs of the witness, evaluated: three moves left at cursor 0 leave the cursor at
  0, three moves right at cursor 4 of \<open>AAPL\<close> leave it at 4; only the deferred flushes
  reach the terminal.
\<close>

lemma move_left_at_beginning:
  "handle_all spec_Add spec_Remove
     [\<lparr>Key = KeyArrowLeft, Ch = 0\<rparr>, \<lparr>Key = KeyCtrlB, Ch = 0\<rparr>, \<lparr>Key = KeyArrowLeft, Ch = 0\<rparr>]
     (new_LineEditor\<lparr>input := ''AAPL'', cursor := 0\<rparr>) =
   Inr (new_LineEditor\<lparr>input := ''AAPL'', cursor := 0, screen := [Flush, Flush, Flush]\<rparr>)"
  by (simp add: editor_eval)

lemma move_right_at_end:
  "handle_all spec_Add spec_Remove
     [\<lparr>Key = KeyArrowRight, Ch = 0\<rparr>, \<lparr>Key = KeyCtrlF, Ch = 0\<rparr>, \<lparr>Key = KeyArrowRight, Ch = 0\<rparr>]
     (new_LineEditor\<lparr>input := ''AAPL'', cursor := 4\<rparr>) =
   Inr (new_LineEditor\<lparr>input := ''AAPL'', cursor := 4, screen := [Flush, Flush, Flush]\<rparr>)"
  by (simp add: editor_eval)

subsection \<open>When Handle ends the session\<close>

text \<open>
  Claim C10. Whenever \<open>Handle\<close> returns, it returns true exactly when the key of the
  event is Escape or Enter; and from a state with the cursor inside the buffer it does
  return, for every event: true for Escape and Enter, false for backspace, cursor
  movement, character insertion and every other event.
\<close>

theorem Handle_ends_session_iff:
  "(\<forall>ended self'. Handle AddTickers RemoveTickers ev self = Inr (ended, self')
       \<longrightarrow> ended = (Key ev = KeyEsc \<or> Key ev = KeyEnter))
   \<and> (cursor_in_bounds self \<longrightarrow>
        (\<exists>self'. Handle AddTickers RemoveTickers ev self
                    = Inr (Key ev = KeyEsc \<or> Key ev = KeyEnter, self')))"
  using Handle_ended [of AddTickers RemoveTickers ev self]
    Handle_step [of self AddTickers RemoveTickers ev]
  by blast

theorem Handle_ends_session_iff_witness:
  "cursor_in_bounds (new_LineEditor\<lparr>input := ''AAPL'', cursor := 2\<rparr>)
   \<and> (\<exists>self'. Handle spec_Add spec_Remove \<lparr>Key = KeyEsc, Ch = 0\<rparr>
                 (new_LineEditor\<lparr>input := ''AAPL'', cursor := 2\<rparr>) = Inr (True, self'))
   \<and> (\<exists>self'. Handle spec_Add spec_Remove \<lparr>Key = KeyEnter, Ch = 0\<rparr>
                 (new_LineEditor\<lparr>input := ''AAPL'', cursor := 2\<rparr>) = Inr (True, self'))
   \<and> (\<exists>self'. Handle spec_Add spec_Remove \<lparr>Key = KeyBackspace, Ch = 0\<rparr>
                 (new_LineEditor\<lparr>input := ''AAPL'', cursor := 2\<rparr>) = Inr (False, self'))
   \<and> (\<exists>self'. Handle spec_Add spec_Remove \<lparr>Key = KeyArrowLeft, Ch = 0\<rparr>
                 (new_LineEditor\<lparr>input := ''AAPL'', cursor := 2\<rparr>) = Inr (False, self'))
   \<and> (\<exists>self'. Handle spec_Add spec_Remove \<lparr>Key = 0, Ch = 0x58\<rparr>
                 (new_LineEditor\<lparr>input := ''AAPL'', cursor := 2\<rparr>) = Inr (False, self'))"
  using Handle_ends_session_iff [of spec_Add spec_Remove "\<lparr>Key = KeyEsc, Ch = 0\<rparr>"
      "new_LineEditor\<lparr>input := ''AAPL'', cursor := 2\<rparr>"]
    Handle_ends_session_iff [of spec_Add spec_Remove "\<lparr>Key = KeyEnter, Ch = 0\<rparr>"
      "new_LineEditor\<lparr>input := ''AAPL'', cursor := 2\<rparr>"]
    Handle_ends_session_iff [of spec_Add spec_Remove "\<lparr>Key = KeyBackspace, Ch = 0\<rparr>"
      "new_LineEditor\<lparr>input := ''AAPL'', cursor := 2\<rparr>"]
    Handle_ends_session_iff [of spec_Add spec_Remove "\<lparr>Key = KeyArrowLeft, Ch = 0\<rparr>"
      "new_LineEditor\<lparr>input := ''AAPL'', cursor := 2\<rparr>"]
    Handle_ends_session_iff [of spec_Add spec_Remove "\<lparr>Key = 0, Ch = 0x58\<rparr>"
      "new_LineEditor\<lparr>input := ''AAPL'', cursor := 2\<rparr>"]
  by (simp add: cursor_in_bounds_def new_LineEditor_def len_def Key_defs)

subsection \<open>Ending a session\<close>

lemma Prompt_buffer:
  "input (Prompt c self) = input self \<and> cursor (Prompt c self) = cursor self"
  by (simp add: Prompt_def Let_def split: option.splits)

lemma done_result:
  "done' self = (True, self\<lparr>screen := screen self @ [ClearLine 0 3, HideCursor]\<rparr>)"
  by (simp add: done'_def Let_def emit_def)

text \<open>
  Claim C4, as the code has it. Escape and Enter end the session: \<open>Handle\<close> returns
  true, and by then \<open>done\<close> has cleared row 3 and hidden the terminal cursor (after
  \<open>execute\<close> has run, on Enter), and the deferred flush follows. Neither \<open>done\<close> nor
  \<open>execute\<close> writes \<open>input\<close> or \<open>cursor\<close>, and \<open>Prompt\<close> writes only \<open>prompt\<close> and
  \<open>command\<close>: the editor keeps its buffer and cursor when the session ends, and a
  \<open>Prompt\<close> on the same editor starts from them.
\<close>

theorem session_end_keeps_buffer:
  assumes "Key ev = KeyEsc \<or> Key ev = KeyEnter"
  shows "\<exists>self'. Handle AddTickers RemoveTickers ev self = Inr (True, self')
           \<and> screen self' =
               screen (if Key ev = KeyEsc then self else execute AddTickers RemoveTickers self)
                 @ [ClearLine 0 3, HideCursor, Flush]
           \<and> input self' = input self \<and> cursor self' = cursor self
           \<and> input (Prompt c self') = input self \<and> cursor (Prompt c self') = cursor self"
proof (cases "Key ev = KeyEsc")
  case True
  then show ?thesis by (simp add: Handle_def done_result Prompt_buffer)
next
  case False
  with assms have "Key ev = KeyEnter" by simp
  with False show ?thesis
    using execute_buffer [of AddTickers RemoveTickers self]
    by (simp add: Handle_def done_result Prompt_buffer)
qed

theorem session_end_keeps_buffer_witness:
  "(\<exists>self'. Handle spec_Add spec_Remove \<lparr>Key = KeyEnter, Ch = 0\<rparr>
              (new_LineEditor\<lparr>command := 0x2B, input := ''nvda'', cursor := 4\<rparr>) = Inr (True, self')
           \<and> screen self' = [Draw [''NVDA''], ClearLine 0 3, HideCursor, Flush]
           \<and> input self' = ''nvda'' \<and> cursor self' = 4
           \<and> input (Prompt 0x2D self') = ''nvda'' \<and> cursor (Prompt 0x2D self') = 4)
   \<and> (\<exists>self'. Handle spec_Add spec_Remove \<lparr>Key = KeyEsc, Ch = 0\<rparr>
              (new_LineEditor\<lparr>command := 0x2B, input := ''nvda'', cursor := 4\<rparr>) = Inr (True, self')
           \<and> screen self' = [ClearLine 0 3, HideCursor, Flush]
           \<and> input self' = ''nvda'' \<and> cursor self' = 4
           \<and> input (Prompt 0x2D self') = ''nvda'' \<and> cursor (Prompt 0x2D self') = 4)"
proof -
  have drawn: "screen (execute spec_Add spec_Remove
                 (new_LineEditor\<lparr>command := 0x2B, input := ''nvda'', cursor := 4\<rparr>))
               = [Draw [''NVDA'']]"
    by (simp add: execute_def tokenize_eval new_LineEditor_def len_def)
  have keys: "KeyEnter \<noteq> KeyEsc"
    by (simp add: Key_defs)
  from drawn keys
    session_end_keeps_buffer [of "\<lparr>Key = KeyEnter, Ch = 0\<rparr>" spec_Add spec_Remove
      "new_LineEditor\<lparr>command := 0x2B, input := ''nvda'', cursor := 4\<rparr>" "0x2D"]
    session_end_keeps_buffer [of "\<lparr>Key = KeyEsc, Ch = 0\<rparr>" spec_Add spec_Remove
      "new_LineEditor\<lparr>command := 0x2B, input := ''nvda'', cursor := 4\<rparr>" "0x2D"]
  show ?thesis
    by (simp add: new_LineEditor_def)
qed

text \<open>
  The claim as the specification states it fails: on a new editor, start an add session,
  type \<open>AAPL\<close>, press Escape, and start a remove session on the same editor. The second
  session begins with the buffer \<open>AAPL\<close> and the cursor at 4.
\<close>

theorem session_state_survives_done:
  "\<exists>typed ended.
     handle_all spec_Add spec_Remove
       [\<lparr>Key = 0, Ch = 0x41\<rparr>, \<lparr>Key = 0, Ch = 0x41\<rparr>, \<lparr>Key = 0, Ch = 0x50\<rparr>, \<lparr>Key = 0, Ch = 0x4C\<rparr>]
       (Prompt 0x2B (Initialize [] [] new_LineEditor)) = Inr typed
     \<and> Handle spec_Add spec_Remove \<lparr>Key = KeyEsc, Ch = 0\<rparr> typed = Inr (True, ended)
     \<and> input (Prompt 0x2D ended) = ''AAPL'' \<and> cursor (Prompt 0x2D ended) = 4"
  by (simp add: editor_eval)

text \<open>Only an editor that is new begins a session with an empty buffer.\<close>

lemma fresh_session_is_empty:
  "input (Prompt c (Initialize scr qs new_LineEditor)) = []
   \<and> cursor (Prompt c (Initialize scr qs new_LineEditor)) = 0"
  by (simp add: Prompt_buffer Initialize_def new_LineEditor_def)

subsection \<open>tokenize\<close>

lemma Split_nonempty: "Split s \<noteq> []"
  by (subst Split.simps) (simp add: Let_def)

text \<open>
  \<open>tokenize\<close> never returns the empty slice, so the test \<open>len(tickers) > 0\<close> in
  \<open>execute\<close> never fails.
\<close>

lemma tokenize_nonempty: "0 < len (tokenize self)"
  by (simp add: tokenize_def Let_def len_def Split_nonempty)

text \<open>
  Claim C3. The example of the specification comes out as stated, but \<open>Split\<close> keeps
  the empty substrings: the empty buffer gives one empty token, a buffer holding only a
  comma gives two, and a comma at either end of the trimmed buffer gives an empty token
  at that end.
\<close>

theorem tokenize_keeps_empty_tokens:
  "tokenize (new_LineEditor\<lparr>input := '' aapl,  msft tsla ''\<rparr>) = [''AAPL'', ''MSFT'', ''TSLA'']
   \<and> tokenize new_LineEditor = [[]]
   \<and> tokenize (new_LineEditor\<lparr>input := '' , ''\<rparr>) = [[], []]
   \<and> tokenize (new_LineEditor\<lparr>input := ''aapl,''\<rparr>) = [''AAPL'', []]
   \<and> tokenize (new_LineEditor\<lparr>input := '',aapl''\<rparr>) = [[], ''AAPL'']"
  by (simp add: tokenize_eval new_LineEditor_def)

text \<open>
  Enter on the empty buffer of an add session therefore reaches \<open>AddTickers\<close> with the
  one token \<open>""\<close>.
\<close>

lemma execute_add_on_empty_buffer:
  "execute AddTickers RemoveTickers (new_LineEditor\<lparr>command := 0x2B, quotes := ts\<rparr>) =
     (let (added, qs) = AddTickers ts [[]];
          self = new_LineEditor\<lparr>command := 0x2B, quotes := qs\<rparr>
      in if added > 0 then emit (Draw qs) self else self)"
  by (simp add: execute_def tokenize_eval new_LineEditor_def len_def split: prod.splits)

subsection \<open>The rows a remove commit clears\<close>

lemma clear_rows_screen:
  "screen (clear_rows i a self) = screen self @ map (ClearLine 0) (rev [a + 5 .. i + 4])"
proof (induction i a self rule: clear_rows.induct)
  case (1 i after self)
  show ?case
  proof (cases "i > after")
    case True
    then have "[after + 5 .. i + 4] = [after + 5 .. i + 4 - 1] @ [i + 4]"
      by (intro upto_rec2) simp
    moreover have "i + 4 - 1 = i - 1 + 4" by simp
    ultimately have "rev [after + 5 .. i + 4] = (i + 4) # rev [after + 5 .. i - 1 + 4]"
      by simp
    with True 1 show ?thesis by (subst clear_rows.simps) simp
  next
    case False
    then show ?thesis by (subst clear_rows.simps) simp
  qed
qed

lemma execute_remove:
  assumes "command self = 0x2D"
    and "RemoveTickers (quotes self) (tokenize self) = (removed, remaining)"
    and "0 < removed"
  shows "screen (execute AddTickers RemoveTickers self) =
           screen self @ [Draw remaining]
             @ map (ClearLine 0) (rev [len (quotes self) - removed + 5 .. len (quotes self) + 4])
             @ (if len (quotes self) - removed = 0 then [ClearLine 0 4] else [])"
    and "quotes (execute AddTickers RemoveTickers self) = remaining"
  using assms tokenize_nonempty [of self]
  by (simp_all add: execute_def Let_def clear_rows_screen clear_rows_fields)

text \<open>
  Claim C5. In a remove commit where \<open>RemoveTickers\<close> reports \<open>removed > 0\<close>, and that
  many tickers have left the list of \<open>before\<close> tickers, \<open>execute\<close> redraws the table,
  clears the rows \<open>before + 4\<close> down to \<open>(before - removed) + 5\<close>, which are
  \<open>removed\<close> rows, and then clears row 4 exactly when no ticker remains. It issues no
  other operation.
\<close>

theorem remove_commit_clears_trailing_rows:
  assumes "command self = 0x2D"
    and "RemoveTickers (quotes self) (tokenize self) = (removed, remaining)"
    and "0 < removed"
    and "len remaining = len (quotes self) - removed"
  shows "screen (execute AddTickers RemoveTickers self) =
           screen self @ [Draw remaining]
             @ map (ClearLine 0) (rev [len (quotes self) - removed + 5 .. len (quotes self) + 4])
             @ (if remaining = [] then [ClearLine 0 4] else [])
         \<and> length [len (quotes self) - removed + 5 .. len (quotes self) + 4] = nat removed
         \<and> quotes (execute AddTickers RemoveTickers self) = remaining"
proof -
  have "(len (quotes self) - removed = 0) = (remaining = [])"
    using assms(4) by (cases remaining) (auto simp: len_def)
  with execute_remove [of self RemoveTickers removed remaining AddTickers, OF assms(1-3)]
    assms(3)
  show ?thesis by simp
qed

theorem remove_commit_clears_trailing_rows_witness:
  "screen (execute spec_Add spec_Remove
     (new_LineEditor\<lparr>command := 0x2D, input := ''msft'', quotes := [''AAPL'', ''MSFT'', ''TSLA'']\<rparr>))
     = [Draw [''AAPL'', ''TSLA''], ClearLine 0 7]
   \<and> screen (execute spec_Add spec_Remove
     (new_LineEditor\<lparr>command := 0x2D, input := ''aapl, msft'', quotes := [''AAPL'', ''MSFT'']\<rparr>))
     = [Draw [], ClearLine 0 6, ClearLine 0 5, ClearLine 0 4]"
  using remove_commit_clears_trailing_rows
      [of "new_LineEditor\<lparr>command := 0x2D, input := ''msft'', quotes := [''AAPL'', ''MSFT'', ''TSLA'']\<rparr>"
          spec_Remove 1 "[''AAPL'', ''TSLA'']" spec_Add]
    remove_commit_clears_trailing_rows
      [of "new_LineEditor\<lparr>command := 0x2D, input := ''aapl, msft'', quotes := [''AAPL'', ''MSFT'']\<rparr>"
          spec_Remove 2 "[]" spec_Add]
  by (simp add: tokenize_eval new_LineEditor_def len_def)

section \<open>Properties of the market file\<close>

subsection \<open>Runs of statements\<close>

lemma run_Cons_None:
  "run (stmt # stmts) m = (None, m') \<longleftrightarrow> (\<exists>m1. stmt m = Inr m1 \<and> run stmts m1 = (None, m'))"
  by (simp split: sum.splits)

lemma store_Inr:
  "store upd a m = Inr m1 \<longleftrightarrow> (\<exists>out. a = Inr out \<and> m1 = upd (\<lambda>_. Some out) m)"
  by (auto simp: store_def split: sum.splits)

lemma name_Yield_Inr:
  "name_Yield m = Inr m1 \<longleftrightarrow>
     (\<exists>y. Yield m = Some y \<and> m1 = m\<lparr>Yield := Some (y(''name'' \<mapsto> ''10-year Yield''))\<rparr>)"
  by (auto simp: name_Yield_def split: option.splits)

lemmas statement_Inr = store_Inr name_Yield_Inr

text \<open>
  A relation that every completed statement extends holds between the start and the end
  of a run, however the run ends.
\<close>

lemma run_invariant:
  assumes "R m0 m"
    and "\<And>stmt m1 m2. stmt \<in> set stmts \<Longrightarrow> R m0 m1 \<Longrightarrow> stmt m1 = Inr m2 \<Longrightarrow> R m0 m2"
  shows "R m0 (snd (run stmts m))"
  using assms
proof (induction stmts arbitrary: m)
  case Nil
  then show ?case by simp
next
  case (Cons stmt stmts)
  show ?case
  proof (cases "stmt m")
    case (Inl p)
    with Cons.prems(1) show ?thesis by simp
  next
    case (Inr m')
    have "R m0 m'" using Cons.prems(2) [of stmt m m'] Cons.prems(1) Inr by simp
    then have "R m0 (snd (run stmts m'))"
      using Cons.prems(2) by (intro Cons.IH) auto
    with Inr show ?thesis by simp
  qed
qed

lemma run_keeps:
  assumes "\<And>stmt m1 m2. stmt \<in> set stmts \<Longrightarrow> stmt m1 = Inr m2 \<Longrightarrow> g m2 = g m1"
  shows "g (snd (run stmts m)) = g m"
  using run_invariant [of "\<lambda>a b. g b = g a" m m stmts] assms by simp

text \<open>
  A run stops at a statement that panics in every state.
\<close>

lemma run_stops:
  assumes "\<And>m'. \<exists>p. stmt m' = Inl p"
  shows "fst (run (before @ stmt # after) m) \<noteq> None
         \<and> snd (run (before @ stmt # after) m) = snd (run before m)"
proof (induction before arbitrary: m)
  case Nil
  from assms [of m] show ?case by auto
next
  case (Cons s before)
  then show ?case by (cases "s m") auto
qed

subsection \<open>assign\<close>

lemma assign_out_of_range:
  "len results \<le> position \<Longrightarrow> assign f results position b = Inl IndexOutOfRange"
  by (simp add: assign_def float_at_def)

lemma store_out_of_range:
  "len results \<le> position \<Longrightarrow> \<exists>p. store upd (assign f results position b) m = Inl p"
  by (simp add: assign_out_of_range store_def)

text \<open>
  A record that \<open>assign\<close> returns is made of the three numbers of the element at
  its position, and of nothing else; it has no key \<open>name\<close>.
\<close>

lemma assign_Inr:
  assumes "assign f results position False = Inr out"
  shows "0 \<le> position \<and> position < len results
         \<and> (\<exists>price change percent.
               (results ! nat position) ''regularMarketPrice'' = Some (JNumber price)
             \<and> (results ! nat position) ''regularMarketChange'' = Some (JNumber change)
             \<and> (results ! nat position) ''regularMarketChangePercent'' = Some (JNumber percent)
             \<and> out = [''change'' \<mapsto> f change, ''latest'' \<mapsto> f price,
                      ''percent'' \<mapsto> f percent @ ''%''])"
  using assms
  by (auto simp: assign_def float_at_def Let_def split: sum.splits if_splits option.splits jvalue.splits)

text \<open>
  Rules that evaluate \<open>assign\<close> on a list of quotes.
\<close>

lemma float_at_Cons:
  "0 < position \<Longrightarrow> float_at (e # es) position key = float_at es (position - 1) key"
proof -
  assume "0 < position"
  then have "nat position = Suc (nat (position - 1))" by simp
  with \<open>0 < position\<close> show ?thesis by (auto simp: float_at_def len_def)
qed

lemma float_at_Nil: "float_at [] position key = Inl IndexOutOfRange"
  by (auto simp: float_at_def len_def)

lemma assign_Nil: "assign f [] position b = Inl IndexOutOfRange"
  by (simp add: assign_def float_at_Nil)

lemma assign_Cons:
  "0 < position \<Longrightarrow> assign f (e # es) position b = assign f es (position - 1) b"
  by (auto simp: assign_def float_at_Cons Let_def split: sum.splits)

lemma assign_quote:
  "assign f (quote price change percent # es) 0 False =
     Inr [''change'' \<mapsto> f change, ''latest'' \<mapsto> f price, ''percent'' \<mapsto> f percent @ ''%'']"
  by (simp add: assign_def float_at_def quote_def len_def)

lemma result_array_sample:
  "result_array (sample_response n)
     = map (\<lambda>price. quote price ''0.50'' ''0.10'') (take n sample_prices)"
  by (simp add: result_array_def sample_response_def response_document_def)

lemmas market_eval = Fetch_def Fetch_body_def isMarketOpen_def extract'_def extract_statements_def
  store_def name_Yield_def result_array_sample assign_Nil assign_Cons assign_quote
  sample_prices_def NewMarket_def Let_def

subsection \<open>What a short result array leaves alone\<close>

lemma short_array_keeps:
  fixes results :: "'n entry list"
  defines "after \<equiv> \<lambda>f m. snd (run (extract_statements f results) m)"
  shows "len results \<le> 0 \<Longrightarrow> Dow (after f m) = Dow m"
    and "len results \<le> 1 \<Longrightarrow> Nasdaq (after f m) = Nasdaq m"
    and "len results \<le> 2 \<Longrightarrow> Sp500 (after f m) = Sp500 m"
    and "len results \<le> 3 \<Longrightarrow> Btc (after f m) = Btc m"
    and "len results \<le> 4 \<Longrightarrow> Tokyo (after f m) = Tokyo m"
    and "len results \<le> 5 \<Longrightarrow> HongKong (after f m) = HongKong m"
    and "len results \<le> 6 \<Longrightarrow> London (after f m) = London m"
    and "len results \<le> 7 \<Longrightarrow> Frankfurt (after f m) = Frankfurt m"
    and "len results \<le> 8 \<Longrightarrow> Yen (after f m) = Yen m"
    and "len results \<le> 9 \<Longrightarrow> Rub (after f m) = Rub m"
    and "len results \<le> 10 \<Longrightarrow> Gbp (after f m) = Gbp m"
    and "len results \<le> 11 \<Longrightarrow> Euro (after f m) = Euro m"
    and "len results \<le> 13 \<Longrightarrow> Silver (after f m) = Silver m"
    and "len results \<le> 14 \<Longrightarrow> Gold (after f m) = Gold m"
proof -
  show "len results \<le> 0 \<Longrightarrow> Dow (after f m) = Dow m"
    unfolding after_def
    by (rule run_keeps [where g = Dow])
      (auto simp: extract_statements_def statement_Inr assign_out_of_range)
  show "len results \<le> 1 \<Longrightarrow> Nasdaq (after f m) = Nasdaq m"
    unfolding after_def
    by (rule run_keeps [where g = Nasdaq])
      (auto simp: extract_statements_def statement_Inr assign_out_of_range)
  show "len results \<le> 2 \<Longrightarrow> Sp500 (after f m) = Sp500 m"
    unfolding after_def
    by (rule run_keeps [where g = Sp500])
      (auto simp: extract_statements_def statement_Inr assign_out_of_range)
  show "len results \<le> 3 \<Longrightarrow> Btc (after f m) = Btc m"
    unfolding after_def
    by (rule run_keeps [where g = Btc])
      (auto simp: extract_statements_def statement_Inr assign_out_of_range)
  show "len results \<le> 4 \<Longrightarrow> Tokyo (after f m) = Tokyo m"
    unfolding after_def
    by (rule run_keeps [where g = Tokyo])
      (auto simp: extract_statements_def statement_Inr assign_out_of_range)
  show "len results \<le> 5 \<Longrightarrow> HongKong (after f m) = HongKong m"
    unfolding after_def
    by (rule run_keeps [where g = HongKong])
      (auto simp: extract_statements_def statement_Inr assign_out_of_range)
  show "len results \<le> 6 \<Longrightarrow> London (after f m) = London m"
    unfolding after_def
    by (rule run_keeps [where g = London])
      (auto simp: extract_statements_def statement_Inr assign_out_of_range)
  show "len results \<le> 7 \<Longrightarrow> Frankfurt (after f m) = Frankfurt m"
    unfolding after_def
    by (rule run_keeps [where g = Frankfurt])
      (auto simp: extract_statements_def statement_Inr assign_out_of_range)
  show "len results \<le> 8 \<Longrightarrow> Yen (after f m) = Yen m"
    unfolding after_def
    by (rule run_keeps [where g = Yen])
      (auto simp: extract_statements_def statement_Inr assign_out_of_range)
  show "len results \<le> 9 \<Longrightarrow> Rub (after f m) = Rub m"
    unfolding after_def
    by (rule run_keeps [where g = Rub])
      (auto simp: extract_statements_def statement_Inr assign_out_of_range)
  show "len results \<le> 10 \<Longrightarrow> Gbp (after f m) = Gbp m"
    unfolding after_def
    by (rule run_keeps [where g = Gbp])
      (auto simp: extract_statements_def statement_Inr assign_out_of_range)
  show "len results \<le> 11 \<Longrightarrow> Euro (after f m) = Euro m"
    unfolding after_def
    by (rule run_keeps [where g = Euro])
      (auto simp: extract_statements_def statement_Inr assign_out_of_range)
  show "len results \<le> 13 \<Longrightarrow> Silver (after f m) = Silver m"
    unfolding after_def
    by (rule run_keeps [where g = Silver])
      (auto simp: extract_statements_def statement_Inr assign_out_of_range)
  show "len results \<le> 14 \<Longrightarrow> Gold (after f m) = Gold m"
    unfolding after_def
    by (rule run_keeps [where g = Gold])
      (auto simp: extract_statements_def statement_Inr assign_out_of_range)
qed

lemma run_keeps_errors:
  "errors (snd (run (extract_statements f results) m)) = errors m"
  by (rule run_keeps [where g = errors]) (auto simp: extract_statements_def statement_Inr)

lemma short_array_panics:
  assumes "len results \<le> 14"
  shows "fst (run (extract_statements f results) m) \<noteq> None"
proof -
  have "extract_statements f results =
          butlast (extract_statements f results) @ store Gold_update (assign f results 14 False) # []"
    by (simp add: extract_statements_def)
  then show ?thesis
    using run_stops [of "store Gold_update (assign f results 14 False)"
        "butlast (extract_statements f results)" "[]" m] store_out_of_range [OF assms]
    by metis
qed

lemma short_array_keeps_Yield:
  assumes "len results \<le> 11"
  shows "Yield (snd (run (extract_statements f results) m)) = Yield m"
proof -
  have split: "extract_statements f results =
          take 11 (extract_statements f results) @ store Euro_update (assign f results 11 False)
            # drop 12 (extract_statements f results)"
    by (simp add: extract_statements_def)
  have "snd (run (extract_statements f results) m) = snd (run (take 11 (extract_statements f results)) m)"
    using run_stops [of "store Euro_update (assign f results 11 False)"
        "take 11 (extract_statements f results)" "drop 12 (extract_statements f results)" m]
      store_out_of_range [OF assms] split
    by metis
  moreover have "Yield (snd (run (take 11 (extract_statements f results)) m)) = Yield m"
    by (rule run_keeps [where g = Yield]) (auto simp: extract_statements_def statement_Inr)
  ultimately show ?thesis by simp
qed

lemma short_array_labels_Yield:
  assumes "len results \<le> 12"
  shows "Yield (snd (run (extract_statements f results) m)) = Yield m
         \<or> (\<exists>y. Yield m = Some y
               \<and> Yield (snd (run (extract_statements f results) m))
                   = Some (y(''name'' \<mapsto> ''10-year Yield'')))"
proof -
  let ?R = "\<lambda>a b. Yield b = Yield a
              \<or> (\<exists>y. Yield a = Some y \<and> Yield b = Some (y(''name'' \<mapsto> ''10-year Yield'')))"
  have split: "extract_statements f results =
          take 13 (extract_statements f results) @ store Yield_update (assign f results 12 False)
            # drop 14 (extract_statements f results)"
    by (simp add: extract_statements_def)
  have "snd (run (extract_statements f results) m) = snd (run (take 13 (extract_statements f results)) m)"
    using run_stops [of "store Yield_update (assign f results 12 False)"
        "take 13 (extract_statements f results)" "drop 14 (extract_statements f results)" m]
      store_out_of_range [OF assms] split
    by metis
  moreover have "?R m (snd (run (take 13 (extract_statements f results)) m))"
    by (rule run_invariant [where R = ?R]) (auto simp: extract_statements_def statement_Inr)
  ultimately show ?thesis by simp
qed

subsection \<open>Fetch and its deferred function\<close>

lemma Fetch_body_BodyRead:
  "Unmarshal body = Some d \<Longrightarrow>
   Fetch_body Unmarshal f (BodyRead body) market
     = run (extract_statements f (result_array d)) market"
  by (simp add: Fetch_body_def isMarketOpen_def extract'_def)

lemma Fetch_cases:
  obtains (completed) market' where "Fetch_body U f r m = (None, market')" "Fetch U f r m = market'"
  | (recovered) p market' where "Fetch_body U f r m = (Some p, market')"
      "Fetch U f r m = market'\<lparr>errors := []\<rparr>"
proof (cases "Fetch_body U f r m")
  case (Pair a market')
  show ?thesis
  proof (cases a)
    case None
    with Pair show ?thesis by (intro completed [of market']) (simp_all add: Fetch_def)
  next
    case (Some p)
    with Pair show ?thesis by (intro recovered [of p market']) (simp_all add: Fetch_def)
  qed
qed

lemma Fetch_fields:
  "Dow (Fetch U f r m) = Dow (snd (Fetch_body U f r m))"
  "Nasdaq (Fetch U f r m) = Nasdaq (snd (Fetch_body U f r m))"
  "Sp500 (Fetch U f r m) = Sp500 (snd (Fetch_body U f r m))"
  "Btc (Fetch U f r m) = Btc (snd (Fetch_body U f r m))"
  "Tokyo (Fetch U f r m) = Tokyo (snd (Fetch_body U f r m))"
  "HongKong (Fetch U f r m) = HongKong (snd (Fetch_body U f r m))"
  "London (Fetch U f r m) = London (snd (Fetch_body U f r m))"
  "Frankfurt (Fetch U f r m) = Frankfurt (snd (Fetch_body U f r m))"
  "Yen (Fetch U f r m) = Yen (snd (Fetch_body U f r m))"
  "Rub (Fetch U f r m) = Rub (snd (Fetch_body U f r m))"
  "Gbp (Fetch U f r m) = Gbp (snd (Fetch_body U f r m))"
  "Euro (Fetch U f r m) = Euro (snd (Fetch_body U f r m))"
  "Yield (Fetch U f r m) = Yield (snd (Fetch_body U f r m))"
  "Silver (Fetch U f r m) = Silver (snd (Fetch_body U f r m))"
  "Gold (Fetch U f r m) = Gold (snd (Fetch_body U f r m))"
  by (cases rule: Fetch_cases [of U f r m]; simp)+

lemma Fetch_errors:
  "fst (Fetch_body U f r m) \<noteq> None \<Longrightarrow> errors (Fetch U f r m) = []"
  by (cases rule: Fetch_cases [of U f r m]) simp_all

lemma Fetch_completed:
  "fst (Fetch_body U f r m) = None \<Longrightarrow> Fetch U f r m = snd (Fetch_body U f r m)"
  by (cases rule: Fetch_cases [of U f r m]) simp_all

lemma Fetch_body_errors: "errors (snd (Fetch_body U f r m)) = errors m"
proof (cases r)
  case (BodyRead body)
  then show ?thesis
    by (cases "U body") (simp_all add: Fetch_body_def isMarketOpen_def extract'_def run_keeps_errors)
qed (simp_all add: Fetch_body_def)

text \<open>
  When all \<open>n < 15\<close> elements of the result array decode, the first \<open>n\<close> records have
  been replaced by the time the fetch fails. (Past position 12 the run needs the map of
  \<open>Yield\<close> to exist, for the write of the label.)
\<close>

lemma result_length_cases:
  assumes "(n::nat) < 15"
  obtains "n = 0" | "n = 1" | "n = 2" | "n = 3" | "n = 4" | "n = 5" | "n = 6" | "n = 7"
    | "n = 8" | "n = 9" | "n = 10" | "n = 11" | "n = 12" | "n = 13" | "n = 14"
  using assms by atomize_elim presburger

lemma decoded_prefix_is_overwritten:
  assumes d: "Unmarshal body = Some d"
    and n: "length (result_array d) = n" "n < 15"
    and ok: "\<forall>i<n. \<exists>out. assign float2Str (result_array d) (int i) False = Inr out"
    and yield: "12 < n \<longrightarrow> Yield market \<noteq> None"
  shows "list_all2 (\<lambda>slot position.
              \<exists>out. assign float2Str (result_array d) position False = Inr out \<and> slot = Some out)
           (take n (indicators (Fetch Unmarshal float2Str (BodyRead body) market)))
           [0 .. int n - 1]"
proof -
  have stop: "assign float2Str (result_array d) (int n) False = Inl IndexOutOfRange"
    using n by (intro assign_out_of_range) (simp add: len_def)
  from n(2) show ?thesis
  proof (cases rule: result_length_cases)
    case 1
    then show ?thesis by simp
  next
    case 2
    with ok stop d yield show ?thesis
      by (cases "Yield market")
        (clarsimp simp: eval_nat_numeral All_less_Suc,
          simp add: Fetch_def Fetch_body_def isMarketOpen_def extract'_def
            extract_statements_def store_def name_Yield_def indicators_def upto_rec1)+
  next
    case 3
    with ok stop d yield show ?thesis
      by (cases "Yield market")
        (clarsimp simp: eval_nat_numeral All_less_Suc,
          simp add: Fetch_def Fetch_body_def isMarketOpen_def extract'_def
            extract_statements_def store_def name_Yield_def indicators_def upto_rec1)+
  next
    case 4
    with ok stop d yield show ?thesis
      by (cases "Yield market")
        (clarsimp simp: eval_nat_numeral All_less_Suc,
          simp add: Fetch_def Fetch_body_def isMarketOpen_def extract'_def
            extract_statements_def store_def name_Yield_def indicators_def upto_rec1)+
  next
    case 5
    with ok stop d yield show ?thesis
      by (cases "Yield market")
        (clarsimp simp: eval_nat_numeral All_less_Suc,
          simp add: Fetch_def Fetch_body_def isMarketOpen_def extract'_def
            extract_statements_def store_def name_Yield_def indicators_def upto_rec1)+
  next
    case 6
    with ok stop d yield show ?thesis
      by (cases "Yield market")
        (clarsimp simp: eval_nat_numeral All_less_Suc,
          simp add: Fetch_def Fetch_body_def isMarketOpen_def extract'_def
            extract_statements_def store_def name_Yield_def indicators_def upto_rec1)+
  next
    case 7
    with ok stop d yield show ?thesis
      by (cases "Yield market")
        (clarsimp simp: eval_nat_numeral All_less_Suc,
          simp add: Fetch_def Fetch_body_def isMarketOpen_def extract'_def
            extract_statements_def store_def name_Yield_def indicators_def upto_rec1)+
  next
    case 8
    with ok stop d yield show ?thesis
      by (cases "Yield market")
        (clarsimp simp: eval_nat_numeral All_less_Suc,
          simp add: Fetch_def Fetch_body_def isMarketOpen_def extract'_def
            extract_statements_def store_def name_Yield_def indicators_def upto_rec1)+
  next
    case 9
    with ok stop d yield show ?thesis
      by (cases "Yield market")
        (clarsimp simp: eval_nat_numeral All_less_Suc,
          simp add: Fetch_def Fetch_body_def isMarketOpen_def extract'_def
            extract_statements_def store_def name_Yield_def indicators_def upto_rec1)+
  next
    case 10
    with ok stop d yield show ?thesis
      by (cases "Yield market")
        (clarsimp simp: eval_nat_numeral All_less_Suc,
          simp add: Fetch_def Fetch_body_def isMarketOpen_def extract'_def
            extract_statements_def store_def name_Yield_def indicators_def upto_rec1)+
  next
    case 11
    with ok stop d yield show ?thesis
      by (cases "Yield market")
        (clarsimp simp: eval_nat_numeral All_less_Suc,
          simp add: Fetch_def Fetch_body_def isMarketOpen_def extract'_def
            extract_statements_def store_def name_Yield_def indicators_def upto_rec1)+
  next
    case 12
    with ok stop d yield show ?thesis
      by (cases "Yield market")
        (clarsimp simp: eval_nat_numeral All_less_Suc,
          simp add: Fetch_def Fetch_body_def isMarketOpen_def extract'_def
            extract_statements_def store_def name_Yield_def indicators_def upto_rec1)+
  next
    case 13
    with ok stop d yield show ?thesis
      by (cases "Yield market")
        (clarsimp simp: eval_nat_numeral All_less_Suc,
          simp add: Fetch_def Fetch_body_def isMarketOpen_def extract'_def
            extract_statements_def store_def name_Yield_def indicators_def upto_rec1)+
  next
    case 14
    with ok stop d yield show ?thesis
      by (cases "Yield market")
        (clarsimp simp: eval_nat_numeral All_less_Suc,
          simp add: Fetch_def Fetch_body_def isMarketOpen_def extract'_def
            extract_statements_def store_def name_Yield_def indicators_def upto_rec1)+
  next
    case 15
    with ok stop d yield show ?thesis
      by (cases "Yield market")
        (clarsimp simp: eval_nat_numeral All_less_Suc,
          simp add: Fetch_def Fetch_body_def isMarketOpen_def extract'_def
            extract_statements_def store_def name_Yield_def indicators_def upto_rec1)+
  qed
qed

text \<open>
  Claim C1, as the code has it. When the result array holds \<open>n < 15\<close> elements, the
  fetch fails as a whole: a statement of \<open>extract\<close> panics, \<open>Fetch\<close> recovers and
  clears \<open>errors\<close>. The snapshot is not left as it was. The records at the positions
  below \<open>n\<close> have been replaced by the records made from the response, whenever its
  \<open>n\<close> elements decode. Only the records at the positions from \<open>n\<close> on are as they
  were before the call, with one exception: for \<open>n = 12\<close> the write of the label has
  already gone into the map of \<open>Yield\<close>.
\<close>

theorem short_result_array_fails_in_part:
  assumes "Unmarshal body = Some d"
    and "n = length (result_array d)"
    and "n < 15"
    and "market' = Fetch Unmarshal float2Str (BodyRead body) market"
  shows "fst (Fetch_body Unmarshal float2Str (BodyRead body) market) \<noteq> None
         \<and> errors market' = []
         \<and> ((\<forall>i<n. \<exists>out. assign float2Str (result_array d) (int i) False = Inr out)
                \<and> (12 < n \<longrightarrow> Yield market \<noteq> None)
              \<longrightarrow> list_all2 (\<lambda>slot position.
                      \<exists>out. assign float2Str (result_array d) position False = Inr out
                            \<and> slot = Some out)
                    (take n (indicators market')) [0 .. int n - 1])
         \<and> (n \<le> 0 \<longrightarrow> Dow market' = Dow market)
         \<and> (n \<le> 1 \<longrightarrow> Nasdaq market' = Nasdaq market)
         \<and> (n \<le> 2 \<longrightarrow> Sp500 market' = Sp500 market)
         \<and> (n \<le> 3 \<longrightarrow> Btc market' = Btc market)
         \<and> (n \<le> 4 \<longrightarrow> Tokyo market' = Tokyo market)
         \<and> (n \<le> 5 \<longrightarrow> HongKong market' = HongKong market)
         \<and> (n \<le> 6 \<longrightarrow> London market' = London market)
         \<and> (n \<le> 7 \<longrightarrow> Frankfurt market' = Frankfurt market)
         \<and> (n \<le> 8 \<longrightarrow> Yen market' = Yen market)
         \<and> (n \<le> 9 \<longrightarrow> Rub market' = Rub market)
         \<and> (n \<le> 10 \<longrightarrow> Gbp market' = Gbp market)
         \<and> (n \<le> 11 \<longrightarrow> Euro market' = Euro market)
         \<and> (n \<le> 11 \<longrightarrow> Yield market' = Yield market)
         \<and> (n \<le> 12 \<longrightarrow> Yield market' = Yield market
                \<or> (\<exists>y. Yield market = Some y
                      \<and> Yield market' = Some (y(''name'' \<mapsto> ''10-year Yield''))))
         \<and> (n \<le> 13 \<longrightarrow> Silver market' = Silver market)
         \<and> Gold market' = Gold market"
proof -
  have body: "Fetch_body Unmarshal float2Str (BodyRead body) market
                = run (extract_statements float2Str (result_array d)) market"
    using assms(1) by (rule Fetch_body_BodyRead)
  have short: "len (result_array d) \<le> 14"
    using assms(2,3) by (simp add: len_def)
  have fails: "fst (Fetch_body Unmarshal float2Str (BodyRead body) market) \<noteq> None"
    unfolding body using short by (rule short_array_panics)
  have len: "(len (result_array d) \<le> int k) = (n \<le> k)" for k
    using assms(2) by (simp add: len_def)
  have cleared: "errors market' = []"
    unfolding assms(4) using fails by (rule Fetch_errors)
  have kept: "(n \<le> 0 \<longrightarrow> Dow market' = Dow market)
         \<and> (n \<le> 1 \<longrightarrow> Nasdaq market' = Nasdaq market)
         \<and> (n \<le> 2 \<longrightarrow> Sp500 market' = Sp500 market)
         \<and> (n \<le> 3 \<longrightarrow> Btc market' = Btc market)
         \<and> (n \<le> 4 \<longrightarrow> Tokyo market' = Tokyo market)
         \<and> (n \<le> 5 \<longrightarrow> HongKong market' = HongKong market)
         \<and> (n \<le> 6 \<longrightarrow> London market' = London market)
         \<and> (n \<le> 7 \<longrightarrow> Frankfurt market' = Frankfurt market)
         \<and> (n \<le> 8 \<longrightarrow> Yen market' = Yen market)
         \<and> (n \<le> 9 \<longrightarrow> Rub market' = Rub market)
         \<and> (n \<le> 10 \<longrightarrow> Gbp market' = Gbp market)
         \<and> (n \<le> 11 \<longrightarrow> Euro market' = Euro market)
         \<and> (n \<le> 11 \<longrightarrow> Yield market' = Yield market)
         \<and> (n \<le> 12 \<longrightarrow> Yield market' = Yield market
                \<or> (\<exists>y. Yield market = Some y
                      \<and> Yield market' = Some (y(''name'' \<mapsto> ''10-year Yield''))))
         \<and> (n \<le> 13 \<longrightarrow> Silver market' = Silver market)
         \<and> Gold market' = Gold market"
    unfolding assms(4) Fetch_fields body
    using short_array_keeps [of "result_array d" float2Str market]
      short_array_keeps_Yield [of "result_array d" float2Str market]
      short_array_labels_Yield [of "result_array d" float2Str market] short
      len [of 0] len [of 1] len [of 2] len [of 3] len [of 4] len [of 5] len [of 6] len [of 7]
      len [of 8] len [of 9] len [of 10] len [of 11] len [of 12] len [of 13]
    by (simp add: body)
  have written: "((\<forall>i<n. \<exists>out. assign float2Str (result_array d) (int i) False = Inr out)
                \<and> (12 < n \<longrightarrow> Yield market \<noteq> None)
              \<longrightarrow> list_all2 (\<lambda>slot position.
                      \<exists>out. assign float2Str (result_array d) position False = Inr out
                            \<and> slot = Some out)
                    (take n (indicators market')) [0 .. int n - 1])"
  proof (intro impI, elim conjE)
    assume "\<forall>i<n. \<exists>out. assign float2Str (result_array d) (int i) False = Inr out"
      and "12 < n \<longrightarrow> Yield market \<noteq> None"
    with assms(1) assms(2) [symmetric] assms(3) show "list_all2 (\<lambda>slot position.
                      \<exists>out. assign float2Str (result_array d) position False = Inr out
                            \<and> slot = Some out)
                    (take n (indicators market')) [0 .. int n - 1]"
      unfolding assms(4) by (rule decoded_prefix_is_overwritten)
  qed
  show ?thesis
    by (rule conjI [OF fails conjI [OF cleared conjI [OF written kept]]])
qed

theorem short_result_array_fails_in_part_witness:
  "length (result_array (sample_response 14)) < 15
   \<and> fst (Fetch_body Some (\<lambda>x. x) (BodyRead (sample_response 14)) (NewMarket [] [])) \<noteq> None
   \<and> errors (Fetch Some (\<lambda>x. x) (BodyRead (sample_response 14)) (NewMarket [] [])) = []
   \<and> Gold (Fetch Some (\<lambda>x. x) (BodyRead (sample_response 14)) (NewMarket [] []))
       = Gold (NewMarket [] [])
   \<and> list_all2 (\<lambda>slot position.
          \<exists>out. assign (\<lambda>x. x) (result_array (sample_response 14)) position False = Inr out
                \<and> slot = Some out)
        (take 14 (indicators (Fetch Some (\<lambda>x. x) (BodyRead (sample_response 14)) (NewMarket [] []))))
        [0 .. 13]"
proof -
  have decodes: "\<forall>i<14. \<exists>out.
      assign (\<lambda>x. x) (result_array (sample_response 14)) (int i) False = Inr out"
    by (simp add: eval_nat_numeral All_less_Suc result_array_sample sample_prices_def
        assign_Cons assign_quote)
  have yield: "Yield (NewMarket [] []) \<noteq> None"
    by (simp add: NewMarket_def)
  from decodes yield
    short_result_array_fails_in_part [of Some "sample_response 14" "sample_response 14" 14
      "Fetch Some (\<lambda>x. x) (BodyRead (sample_response 14)) (NewMarket [] [])" "\<lambda>x. x"
      "NewMarket [] []"]
  show ?thesis
    by (simp add: result_array_sample sample_prices_def)
qed

text \<open>
  The claim as the specification states it fails on a result array of 14 elements: the
  fetch fails with an index out of range at position 14, and by then \<open>Dow\<close> (like the
  twelve records after it) holds the record decoded from the response, not the one it
  held before the call.
\<close>

theorem short_result_array_is_not_atomic:
  "fst (Fetch_body Some (\<lambda>x. x) (BodyRead (sample_response 14)) (NewMarket [] []))
     = Some IndexOutOfRange
   \<and> Dow (Fetch Some (\<lambda>x. x) (BodyRead (sample_response 14)) (NewMarket [] []))
       = Some [''change'' \<mapsto> ''0.50'', ''latest'' \<mapsto> ''1.00'', ''percent'' \<mapsto> ''0.10%'']
   \<and> Dow (NewMarket [] []) = Some Map.empty
   \<and> Dow (Fetch Some (\<lambda>x. x) (BodyRead (sample_response 14)) (NewMarket [] []))
       \<noteq> Dow (NewMarket [] [])"
  by (simp add: market_eval)

text \<open>
  A result array of more than 15 elements is not refused: its first 15 elements are
  decoded and the fetch completes.
\<close>

lemma long_result_array_is_accepted:
  "fst (Fetch_body Some (\<lambda>x. x) (BodyRead (sample_response 16)) (NewMarket [] [])) = None
   \<and> Gold (Fetch Some (\<lambda>x. x) (BodyRead (sample_response 16)) (NewMarket [] []))
       = Some [''change'' \<mapsto> ''0.50'', ''latest'' \<mapsto> ''15.00'', ''percent'' \<mapsto> ''0.10%'']"
  by (simp add: market_eval)

text \<open>
  Claim C2, as the code has it. After a fetch that fails, \<open>errors\<close> is the empty
  string, so \<open>Ok\<close> returns \<open>(true, "")\<close>: healthy, with no message. A fetch that
  completes does not write \<open>errors\<close>, and \<open>Ok\<close> returns what it returned before.
\<close>

theorem failed_fetch_reports_healthy:
  "(fst (Fetch_body Unmarshal float2Str response market) \<noteq> None
      \<longrightarrow> Ok (Fetch Unmarshal float2Str response market) = (True, []))
   \<and> (fst (Fetch_body Unmarshal float2Str response market) = None
      \<longrightarrow> Ok (Fetch Unmarshal float2Str response market) = Ok market)"
  using Fetch_errors [of Unmarshal float2Str response market]
    Fetch_completed [of Unmarshal float2Str response market]
    Fetch_body_errors [of Unmarshal float2Str response market]
  by (simp add: Ok_def)

theorem failed_fetch_reports_healthy_witness:
  "fst (Fetch_body Some (\<lambda>x. x) (BodyRead (sample_response 14))
          ((NewMarket [] [])\<lparr>errors := ''stale''\<rparr>)) \<noteq> None
   \<and> Ok (Fetch Some (\<lambda>x. x) (BodyRead (sample_response 14))
          ((NewMarket [] [])\<lparr>errors := ''stale''\<rparr>)) = (True, [])
   \<and> fst (Fetch_body Some (\<lambda>x. x) (BodyRead (sample_response 15))
          ((NewMarket [] [])\<lparr>errors := ''stale''\<rparr>)) = None
   \<and> Ok (Fetch Some (\<lambda>x. x) (BodyRead (sample_response 15))
          ((NewMarket [] [])\<lparr>errors := ''stale''\<rparr>)) = (False, ''stale'')"
proof -
  have a: "fst (Fetch_body Some (\<lambda>x. x) (BodyRead (sample_response 14))
          ((NewMarket [] [])\<lparr>errors := ''stale''\<rparr>)) \<noteq> None"
    by (simp add: market_eval)
  have b: "fst (Fetch_body Some (\<lambda>x. x) (BodyRead (sample_response 15))
          ((NewMarket [] [])\<lparr>errors := ''stale''\<rparr>)) = None"
    by (simp add: market_eval)
  show ?thesis
    using a b
      failed_fetch_reports_healthy [of Some "\<lambda>x. x" "BodyRead (sample_response 14)"
        "(NewMarket [] [])\<lparr>errors := ''stale''\<rparr>"]
      failed_fetch_reports_healthy [of Some "\<lambda>x. x" "BodyRead (sample_response 15)"
        "(NewMarket [] [])\<lparr>errors := ''stale''\<rparr>"]
    by (simp add: Ok_def)
qed

text \<open>
  The claim as the specification states it fails: after a fetch that fails in
  \<open>client.Do\<close>, and after one that fails in \<open>json.Unmarshal\<close>, \<open>Ok\<close> reports the
  healthy state and the empty message.
\<close>

theorem failed_fetch_sets_no_error:
  "fst (Fetch_body (\<lambda>body. None :: string decoded option) (\<lambda>x. x) DoFailed (NewMarket [] []))
     = Some TransportError
   \<and> Ok (Fetch (\<lambda>body. None :: string decoded option) (\<lambda>x. x) DoFailed (NewMarket [] []))
       = (True, [])
   \<and> fst (Fetch_body (\<lambda>body. None :: string decoded option) (\<lambda>x. x) (BodyRead ''<html>'')
            (NewMarket [] []))
       = Some UnmarshalError
   \<and> Ok (Fetch (\<lambda>body. None :: string decoded option) (\<lambda>x. x) (BodyRead ''<html>'')
            (NewMarket [] []))
       = (True, [])"
  by (simp add: Fetch_def Fetch_body_def isMarketOpen_def extract'_def Ok_def NewMarket_def)

subsection \<open>A decode that completes\<close>

lemma extract_success:
  assumes "extract' U f body market = (None, market')"
  shows "\<exists>d. U body = Some d \<and>
           list_all2 (\<lambda>slot position.
                \<exists>out. assign f (result_array d) position False = Inr out \<and> slot = Some out)
             (indicators market') [0..14]"
proof -
  from assms obtain d where d: "U body = Some d"
    by (auto simp: extract'_def split: option.splits)
  with assms have "run (extract_statements f (result_array d)) market = (None, market')"
    by (simp add: extract'_def Let_def)
  then have "list_all2 (\<lambda>slot position.
                \<exists>out. assign f (result_array d) position False = Inr out \<and> slot = Some out)
             (indicators market') [0..14]"
    unfolding extract_statements_def run_Cons_None store_Inr name_Yield_Inr
    by (clarsimp simp: indicators_def upto_rec1)
  with d show ?thesis by blast
qed

lemma extract_success_fields:
  assumes "extract' U f body market = (None, market')"
  shows "\<exists>d. U body = Some d \<and> 15 \<le> length (result_array d) \<and>
           list_all2 (\<lambda>slot position.
                \<exists>out price change percent.
                  assign f (result_array d) position False = Inr out \<and> slot = Some out
                \<and> (result_array d ! nat position) ''regularMarketPrice'' = Some (JNumber price)
                \<and> (result_array d ! nat position) ''regularMarketChange'' = Some (JNumber change)
                \<and> (result_array d ! nat position) ''regularMarketChangePercent''
                    = Some (JNumber percent)
                \<and> out = [''change'' \<mapsto> f change, ''latest'' \<mapsto> f price,
                         ''percent'' \<mapsto> f percent @ ''%''])
             (indicators market') [0..14]"
proof -
  from extract_success [OF assms] obtain d where d: "U body = Some d"
    and slots: "list_all2 (\<lambda>slot position.
                \<exists>out. assign f (result_array d) position False = Inr out \<and> slot = Some out)
             (indicators market') [0..14]"
    by blast
  have content: "\<exists>out price change percent.
                  assign f (result_array d) position False = Inr out \<and> slot = Some out
                \<and> (result_array d ! nat position) ''regularMarketPrice'' = Some (JNumber price)
                \<and> (result_array d ! nat position) ''regularMarketChange'' = Some (JNumber change)
                \<and> (result_array d ! nat position) ''regularMarketChangePercent''
                    = Some (JNumber percent)
                \<and> out = [''change'' \<mapsto> f change, ''latest'' \<mapsto> f price,
                         ''percent'' \<mapsto> f percent @ ''%'']"
    if "\<exists>out. assign f (result_array d) position False = Inr out \<and> slot = Some out"
    for slot position
    using that assign_Inr [of f "result_array d" position] by blast
  from slots have fields: "list_all2 (\<lambda>slot position.
                \<exists>out price change percent.
                  assign f (result_array d) position False = Inr out \<and> slot = Some out
                \<and> (result_array d ! nat position) ''regularMarketPrice'' = Some (JNumber price)
                \<and> (result_array d ! nat position) ''regularMarketChange'' = Some (JNumber change)
                \<and> (result_array d ! nat position) ''regularMarketChangePercent''
                    = Some (JNumber percent)
                \<and> out = [''change'' \<mapsto> f change, ''latest'' \<mapsto> f price,
                         ''percent'' \<mapsto> f percent @ ''%''])
             (indicators market') [0..14]"
    by (rule list_all2_mono) (rule content)
  from slots obtain out where "assign f (result_array d) 14 False = Inr out"
    by (auto simp: indicators_def upto_rec1)
  from assign_Inr [OF this] have "15 \<le> length (result_array d)"
    by (simp add: len_def)
  with d fields show ?thesis by blast
qed

text \<open>
  Claim C9. When \<open>extract\<close> completes, the result array has at least 15 elements, and
  the records \<open>Dow\<close>, \<open>Nasdaq\<close>, \<open>Sp500\<close>, \<open>Btc\<close>, \<open>Tokyo\<close>, \<open>HongKong\<close>, \<open>London\<close>,
  \<open>Frankfurt\<close>, \<open>Yen\<close>, \<open>Rub\<close>, \<open>Gbp\<close>, \<open>Euro\<close>, \<open>Yield\<close>, \<open>Silver\<close>, \<open>Gold\<close> are, in
  this order, made from the elements at positions 0 to 14: the record at position
  \<open>i\<close> holds the formatted price, change and percent that element \<open>i\<close> of the array
  carries in its three numeric fields, and it is what \<open>assign\<close> returns for that
  position. The position alone selects the element; no other field of it is read.
\<close>

theorem decode_is_positional:
  assumes "extract' Unmarshal float2Str body market = (None, market')"
  shows "\<exists>d. Unmarshal body = Some d \<and> 15 \<le> length (result_array d) \<and>
           list_all2 (\<lambda>slot position.
                \<exists>out price change percent.
                  assign float2Str (result_array d) position False = Inr out \<and> slot = Some out
                \<and> (result_array d ! nat position) ''regularMarketPrice'' = Some (JNumber price)
                \<and> (result_array d ! nat position) ''regularMarketChange'' = Some (JNumber change)
                \<and> (result_array d ! nat position) ''regularMarketChangePercent''
                    = Some (JNumber percent)
                \<and> out = [''change'' \<mapsto> float2Str change, ''latest'' \<mapsto> float2Str price,
                         ''percent'' \<mapsto> float2Str percent @ ''%''])
             [Dow market', Nasdaq market', Sp500 market', Btc market', Tokyo market',
              HongKong market', London market', Frankfurt market', Yen market', Rub market',
              Gbp market', Euro market', Yield market', Silver market', Gold market']
             [0..14]"
  using extract_success_fields [OF assms] unfolding indicators_def .

theorem decode_is_positional_witness:
  "\<exists>market'. extract' Some (\<lambda>x. x) (sample_response 15) (NewMarket [] []) = (None, market')
     \<and> 15 \<le> length (result_array (sample_response 15))
     \<and> list_all2 (\<lambda>slot position.
            \<exists>out price change percent.
              assign (\<lambda>x. x) (result_array (sample_response 15)) position False = Inr out
            \<and> slot = Some out
            \<and> (result_array (sample_response 15) ! nat position) ''regularMarketPrice''
                = Some (JNumber price)
            \<and> (result_array (sample_response 15) ! nat position) ''regularMarketChange''
                = Some (JNumber change)
            \<and> (result_array (sample_response 15) ! nat position) ''regularMarketChangePercent''
                = Some (JNumber percent)
            \<and> out = [''change'' \<mapsto> change, ''latest'' \<mapsto> price, ''percent'' \<mapsto> percent @ ''%''])
         [Dow market', Nasdaq market', Sp500 market', Btc market', Tokyo market',
          HongKong market', London market', Frankfurt market', Yen market', Rub market',
          Gbp market', Euro market', Yield market', Silver market', Gold market']
         [0..14]
     \<and> Dow market'
         = Some [''change'' \<mapsto> ''0.50'', ''latest'' \<mapsto> ''1.00'', ''percent'' \<mapsto> ''0.10%'']
     \<and> Gold market'
         = Some [''change'' \<mapsto> ''0.50'', ''latest'' \<mapsto> ''15.00'', ''percent'' \<mapsto> ''0.10%'']"
proof -
  obtain r where r: "extract' Some (\<lambda>x. x) (sample_response 15) (NewMarket [] []) = (None, r)"
    and dow: "Dow r
         = Some [''change'' \<mapsto> ''0.50'', ''latest'' \<mapsto> ''1.00'', ''percent'' \<mapsto> ''0.10%'']"
    and gold: "Gold r
         = Some [''change'' \<mapsto> ''0.50'', ''latest'' \<mapsto> ''15.00'', ''percent'' \<mapsto> ''0.10%'']"
    by (simp add: market_eval)
  from decode_is_positional [OF r] have
    "15 \<le> length (result_array (sample_response 15))
     \<and> list_all2 (\<lambda>slot position.
            \<exists>out price change percent.
              assign (\<lambda>x. x) (result_array (sample_response 15)) position False = Inr out
            \<and> slot = Some out
            \<and> (result_array (sample_response 15) ! nat position) ''regularMarketPrice''
                = Some (JNumber price)
            \<and> (result_array (sample_response 15) ! nat position) ''regularMarketChange''
                = Some (JNumber change)
            \<and> (result_array (sample_response 15) ! nat position) ''regularMarketChangePercent''
                = Some (JNumber percent)
            \<and> out = [''change'' \<mapsto> change, ''latest'' \<mapsto> price, ''percent'' \<mapsto> percent @ ''%''])
         [Dow r, Nasdaq r, Sp500 r, Btc r, Tokyo r, HongKong r, London r, Frankfurt r, Yen r,
          Rub r, Gbp r, Euro r, Yield r, Silver r, Gold r]
         [0..14]"
    by simp
  with r dow gold show ?thesis by blast
qed

text \<open>
  The records of the sample response with 15 elements, at four of the positions.
\<close>

lemma sample_decode:
  "\<exists>market'. extract' Some (\<lambda>x. x) (sample_response 15) (NewMarket [] []) = (None, market')
     \<and> Dow market' = Some [''change'' \<mapsto> ''0.50'', ''latest'' \<mapsto> ''1.00'', ''percent'' \<mapsto> ''0.10%'']
     \<and> Yen market' = Some [''change'' \<mapsto> ''0.50'', ''latest'' \<mapsto> ''9.00'', ''percent'' \<mapsto> ''0.10%'']
     \<and> Yield market' = Some [''change'' \<mapsto> ''0.50'', ''latest'' \<mapsto> ''13.00'', ''percent'' \<mapsto> ''0.10%'']
     \<and> Gold market' = Some [''change'' \<mapsto> ''0.50'', ''latest'' \<mapsto> ''15.00'', ''percent'' \<mapsto> ''0.10%'']"
  by (simp add: market_eval)

text \<open>
  After a decode that completes, the record of \<open>Yield\<close> has no key \<open>name\<close>: the
  statement after the one that writes the label replaces the whole map.
\<close>

lemma successful_decode_drops_label:
  assumes "extract' U f body market = (None, market')"
  shows "\<exists>y. Yield market' = Some y \<and> y ''name'' = None"
proof -
  from extract_success [OF assms] obtain d out
    where "assign f (result_array d) 12 False = Inr out" "Yield market' = Some out"
    by (auto simp: indicators_def upto_rec1)
  with assign_Inr [of f "result_array d" 12 out] show ?thesis by auto
qed

text \<open>
  Claim C8. On the sample response with 15 elements the decode completes, and the
  record of \<open>Yield\<close> holds the price, the change and the percent of position 12 and
  no label.
\<close>

theorem Yield_label_is_overwritten:
  "\<exists>market'. extract' Some (\<lambda>x. x) (sample_response 15) (NewMarket [] []) = (None, market')
     \<and> (\<exists>y. Yield market' = Some y \<and> y ''name'' = None
            \<and> y ''latest'' = Some ''13.00'' \<and> y ''change'' = Some ''0.50''
            \<and> y ''percent'' = Some ''0.10%'')"
  by (simp add: market_eval)

end
